theory Spec2Isabelle
  imports Complex_Main
begin

section \<open>Time values\<close>

text \<open>
  Python's \<^verbatim>\<open>datetime\<close> module, as far as the program uses it. A \<^verbatim>\<open>date\<close> is its
  proleptic ordinal (\<^verbatim>\<open>date.toordinal()\<close>), a \<^verbatim>\<open>timedelta\<close> a whole number of
  microseconds (the resolution of the Python type), and a naive \<^verbatim>\<open>datetime\<close> the number of
  microseconds since midnight of ordinal day 0. A \<^verbatim>\<open>time\<close> keeps its four fields.
\<close>

type_synonym date = int
type_synonym timedelta = int
type_synonym datetime = int

record time =
  hour :: nat
  minute :: nat
  second :: nat
  microsecond :: nat

definition time_of :: "nat \<Rightarrow> nat \<Rightarrow> time" where
  \<comment> \<open>\<^verbatim>\<open>time(h, m)\<close>: seconds and microseconds default to 0\<close>
  "time_of h m = \<lparr>hour = h, minute = m, second = 0, microsecond = 0\<rparr>"

definition MICROSECONDS_PER_MINUTE :: int where
  "MICROSECONDS_PER_MINUTE = 60000000"

definition MICROSECONDS_PER_DAY :: int where
  "MICROSECONDS_PER_DAY = 86400000000"

definition timedelta_days :: "int \<Rightarrow> timedelta" where
  \<comment> \<open>\<^verbatim>\<open>timedelta(days=n)\<close>\<close>
  "timedelta_days n = n * MICROSECONDS_PER_DAY"

definition timedelta_minutes :: "int \<Rightarrow> timedelta" where
  \<comment> \<open>\<^verbatim>\<open>timedelta(minutes=n)\<close>\<close>
  "timedelta_minutes n = n * MICROSECONDS_PER_MINUTE"

definition time_microseconds :: "time \<Rightarrow> int" where
  "time_microseconds t =
     ((int (hour t) * 60 + int (minute t)) * 60 + int (second t)) * 1000000 + int (microsecond t)"

definition date_plus :: "date \<Rightarrow> timedelta \<Rightarrow> date" where
  \<comment> \<open>\<^verbatim>\<open>date + timedelta\<close>: only the whole days of the timedelta count\<close>
  "date_plus d td = d + td div MICROSECONDS_PER_DAY"

definition datetime_combine :: "date \<Rightarrow> time \<Rightarrow> datetime" where
  \<comment> \<open>\<^verbatim>\<open>datetime.combine(d, t)\<close>\<close>
  "datetime_combine d t = d * MICROSECONDS_PER_DAY + time_microseconds t"

definition datetime_date :: "datetime \<Rightarrow> date" where
  \<comment> \<open>\<^verbatim>\<open>dt.date()\<close>\<close>
  "datetime_date dt = dt div MICROSECONDS_PER_DAY"

definition datetime_time_microseconds :: "datetime \<Rightarrow> int" where
  \<comment> \<open>the time of day of \<^verbatim>\<open>dt.time()\<close>, in microseconds since midnight\<close>
  "datetime_time_microseconds dt = dt mod MICROSECONDS_PER_DAY"


section \<open>Domain model\<close>

text \<open>
  Modelled from the spec: the classes of \<^verbatim>\<open>domain.py\<close>, which is missing. The records
  have the fields that \<^verbatim>\<open>demo_data.py\<close> passes to the constructors and that
  \<^verbatim>\<open>constraints.py\<close> reads, and the derived state that the spec gives them: the
  computed service-finish time of a visit (\<open>service_end_time\<close>, absent while the visit is
  unassigned) and the total driving time of a vehicle. A visit's back-reference to its
  vehicle is a relation and not a part of the visit, so the vehicle owns the ordered list
  of its visits and the visit record has no vehicle field.
\<close>

record Location =
  latitude :: real
  longitude :: real

record Visit =
  visit_id :: string
  visit_name :: string
  location :: Location
  demand :: int
  min_start_time :: datetime
  max_end_time :: datetime
  service_duration :: timedelta
  service_end_time :: "datetime option"

record Vehicle =
  vehicle_id :: string
  capacity :: int
  home_location :: Location
  departure_time :: datetime
  visits :: "Visit list"
  total_driving_time_seconds :: int

record VehicleRoutePlan =
  plan_name :: string
  south_west_corner :: Location
  north_east_corner :: Location
  vehicles :: "Vehicle list"
  visits :: "Visit list"

text \<open>
  Modelled from the spec: \<^verbatim>\<open>Vehicle.calculate_total_demand\<close> and the attribute
  \<^verbatim>\<open>Vehicle.total_demand\<close> are in \<^verbatim>\<open>domain.py\<close>, which is missing. The total demand
  of a vehicle is the sum of the demands of its assigned visits.
\<close>

definition calculate_total_demand :: "Vehicle \<Rightarrow> int" where
  "calculate_total_demand vehicle = sum_list (map demand (Vehicle.visits vehicle))"

definition total_demand :: "Vehicle \<Rightarrow> int" where
  "total_demand vehicle = calculate_total_demand vehicle"

text \<open>
  Modelled from the spec: \<^verbatim>\<open>Vehicle.calculate_total_driving_time_seconds\<close> is in
  \<^verbatim>\<open>domain.py\<close>, which is missing. The total driving time sums the travel durations
  along the route, which come from a distance function outside this program: the time is
  the field \<open>total_driving_time_seconds\<close> of the vehicle, which the method returns.
\<close>

definition calculate_total_driving_time_seconds :: "Vehicle \<Rightarrow> int" where
  "calculate_total_driving_time_seconds vehicle = total_driving_time_seconds vehicle"

text \<open>
  Modelled from the spec: \<^verbatim>\<open>Visit.is_service_finished_after_max_end_time\<close> is in
  \<^verbatim>\<open>domain.py\<close>, which is missing. The computed service-finish time is derived state of
  the visit, the field \<open>service_end_time\<close>, absent while the visit is unassigned. The
  service is finished after the maximum end time when the computed service-finish time is
  later than the maximum end time; an unassigned visit is never late.
\<close>

definition is_service_finished_after_max_end_time :: "Visit \<Rightarrow> bool" where
  "is_service_finished_after_max_end_time visit =
     (case service_end_time visit of
        None \<Rightarrow> False
      | Some finish \<Rightarrow> finish > max_end_time visit)"

text \<open>
  Modelled from the spec: \<^verbatim>\<open>Visit.service_finished_delay_in_minutes\<close> is in
  \<^verbatim>\<open>domain.py\<close>, which is missing. The delay is the time from the maximum end time to
  the computed service-finish time, in minutes. The spec does not say how a part of a
  minute counts; here a started minute counts as a minute. An unassigned visit has delay 0.
\<close>

definition service_finished_delay_in_minutes :: "Visit \<Rightarrow> int" where
  "service_finished_delay_in_minutes visit =
     (case service_end_time visit of
        None \<Rightarrow> 0
      | Some finish \<Rightarrow> - ((max_end_time visit - finish) div MICROSECONDS_PER_MINUTE))"


section \<open>Scores and constraint streams\<close>

text \<open>
  The part of the solver's API that \<^verbatim>\<open>constraints.py\<close> uses. A score has a hard and a soft
  level. A stream yields the entities of a plan that it matches; \<open>penalize\<close> gives every
  match a weight, and the score of a constraint on a plan is its constraint weight times
  the sum of the match weights, subtracted from zero on both levels.
\<close>

record HardSoftScore =
  hard_score :: int
  soft_score :: int

definition HardSoftScore_of :: "int \<Rightarrow> int \<Rightarrow> HardSoftScore" where
  "HardSoftScore_of h s = \<lparr>hard_score = h, soft_score = s\<rparr>"

type_synonym 'a stream = "VehicleRoutePlan \<Rightarrow> 'a list"

record Constraint =
  constraint_name :: string
  constraint_weight :: HardSoftScore
  match_weights :: "VehicleRoutePlan \<Rightarrow> int list"

definition for_each_Vehicle :: "Vehicle stream" where
  "for_each_Vehicle plan = vehicles plan"

definition for_each_Visit :: "Visit stream" where
  "for_each_Visit plan = VehicleRoutePlan.visits plan"

definition filter_stream :: "('a \<Rightarrow> bool) \<Rightarrow> 'a stream \<Rightarrow> 'a stream" where
  "filter_stream p s plan = filter p (s plan)"

definition penalize ::
  "HardSoftScore \<Rightarrow> ('a \<Rightarrow> int) \<Rightarrow> 'a stream \<Rightarrow> HardSoftScore \<times> (VehicleRoutePlan \<Rightarrow> int list)" where
  "penalize w match_weigher s = (w, \<lambda>plan. map match_weigher (s plan))"

definition penalize_flat ::
  "HardSoftScore \<Rightarrow> 'a stream \<Rightarrow> HardSoftScore \<times> (VehicleRoutePlan \<Rightarrow> int list)" where
  \<comment> \<open>\<open>penalize\<close> without a match weigher: every match weighs 1\<close>
  "penalize_flat w s = penalize w (\<lambda>_. 1) s"

definition as_constraint ::
  "string \<Rightarrow> HardSoftScore \<times> (VehicleRoutePlan \<Rightarrow> int list) \<Rightarrow> Constraint" where
  "as_constraint n b =
     \<lparr>constraint_name = n, constraint_weight = fst b, match_weights = snd b\<rparr>"

definition constraint_score :: "Constraint \<Rightarrow> VehicleRoutePlan \<Rightarrow> HardSoftScore" where
  "constraint_score c plan =
     (let m = sum_list (match_weights c plan)
      in \<lparr>hard_score = - (hard_score (constraint_weight c) * m),
          soft_score = - (soft_score (constraint_weight c) * m)\<rparr>)"


section \<open>The constraints\<close>

definition VEHICLE_CAPACITY :: string where
  "VEHICLE_CAPACITY = ''vehicleCapacity''"

definition MINIMIZE_TRAVEL_TIME :: string where
  "MINIMIZE_TRAVEL_TIME = ''minimizeTravelTime''"

definition SERVICE_FINISHED_AFTER_MAX_END_TIME :: string where
  "SERVICE_FINISHED_AFTER_MAX_END_TIME = ''serviceFinishedAfterMaxEndTime''"

definition BALANCE_LOAD :: string where
  "BALANCE_LOAD = ''balanceLoad''"

definition LIMIT_DRIVING_TIME :: string where
  "LIMIT_DRIVING_TIME = ''limitDrivingTime''"

definition MINIMIZE_MAX_LOAD :: string where
  "MINIMIZE_MAX_LOAD = ''minimizeMaxLoad''"

definition ENCOURAGE_FULL_UTILIZATION :: string where
  "ENCOURAGE_FULL_UTILIZATION = ''encourageFullUtilization''"

definition MINIMIZE_VEHICLE_COUNT :: string where
  "MINIMIZE_VEHICLE_COUNT = ''minimizeVehicleCount''"

text \<open>
  The flags are module constants in the source. They are a record here, so that a
  statement can range over every setting; \<open>module_flags\<close> holds the values of the source.
\<close>

record Flags =
  ENABLE_TIME_WINDOW_CONSTRAINTS :: bool
  ENABLE_LOAD_BALANCING :: bool
  ENABLE_DRIVING_TIME_LIMIT :: bool
  ENABLE_MINIMIZE_MAX_LOAD :: bool
  ENABLE_ENCOURAGE_FULL_UTILIZATION :: bool
  ENABLE_MINIMIZE_VEHICLE_COUNT :: bool

definition module_flags :: Flags where
  "module_flags =
     \<lparr>ENABLE_TIME_WINDOW_CONSTRAINTS = True,
      ENABLE_LOAD_BALANCING = False,
      ENABLE_DRIVING_TIME_LIMIT = False,
      ENABLE_MINIMIZE_MAX_LOAD = False,
      ENABLE_ENCOURAGE_FULL_UTILIZATION = False,
      ENABLE_MINIMIZE_VEHICLE_COUNT = True\<rparr>"

definition DRIVING_TIME_LIMIT_SECONDS :: int where
  "DRIVING_TIME_LIMIT_SECONDS = 3 * 60 * 60"

definition MAX_LOAD_PER_VEHICLE :: int where
  "MAX_LOAD_PER_VEHICLE = 15"

definition MIN_LOAD_THRESHOLD :: int where
  "MIN_LOAD_THRESHOLD = 5"

definition vehicle_capacity :: Constraint where
  "vehicle_capacity =
     as_constraint VEHICLE_CAPACITY
       (penalize (HardSoftScore_of 1 0)
          (\<lambda>vehicle. calculate_total_demand vehicle - capacity vehicle)
          (filter_stream (\<lambda>vehicle. calculate_total_demand vehicle > capacity vehicle)
             for_each_Vehicle))"

definition service_finished_after_max_end_time :: Constraint where
  "service_finished_after_max_end_time =
     as_constraint SERVICE_FINISHED_AFTER_MAX_END_TIME
       (penalize (HardSoftScore_of 1 0)
          (\<lambda>visit. service_finished_delay_in_minutes visit)
          (filter_stream (\<lambda>visit. is_service_finished_after_max_end_time visit)
             for_each_Visit))"

definition limit_driving_time :: Constraint where
  "limit_driving_time =
     as_constraint LIMIT_DRIVING_TIME
       (penalize (HardSoftScore_of 1 0)
          (\<lambda>vehicle. total_driving_time_seconds vehicle - DRIVING_TIME_LIMIT_SECONDS)
          (filter_stream
             (\<lambda>vehicle. total_driving_time_seconds vehicle > DRIVING_TIME_LIMIT_SECONDS)
             for_each_Vehicle))"

definition minimize_travel_time :: Constraint where
  "minimize_travel_time =
     as_constraint MINIMIZE_TRAVEL_TIME
       (penalize (HardSoftScore_of 0 1)
          (\<lambda>vehicle. calculate_total_driving_time_seconds vehicle)
          for_each_Vehicle)"

definition balance_load :: Constraint where
  "balance_load =
     as_constraint BALANCE_LOAD
       (penalize (HardSoftScore_of 0 5)
          (\<lambda>vehicle. total_demand vehicle)
          for_each_Vehicle)"

definition minimize_max_load :: Constraint where
  "minimize_max_load =
     as_constraint MINIMIZE_MAX_LOAD
       (penalize (HardSoftScore_of 0 10)
          (\<lambda>vehicle. total_demand vehicle - MAX_LOAD_PER_VEHICLE)
          (filter_stream (\<lambda>vehicle. total_demand vehicle > MAX_LOAD_PER_VEHICLE)
             for_each_Vehicle))"

definition encourage_full_utilization :: Constraint where
  "encourage_full_utilization =
     as_constraint ENCOURAGE_FULL_UTILIZATION
       (penalize (HardSoftScore_of 0 3)
          (\<lambda>vehicle. MIN_LOAD_THRESHOLD - total_demand vehicle)
          (filter_stream (\<lambda>vehicle. total_demand vehicle < MIN_LOAD_THRESHOLD)
             for_each_Vehicle))"

definition minimize_vehicle_count :: Constraint where
  "minimize_vehicle_count =
     as_constraint MINIMIZE_VEHICLE_COUNT
       (penalize_flat (HardSoftScore_of 0 20)
          (filter_stream (\<lambda>vehicle. length (Vehicle.visits vehicle) > 0)
             for_each_Vehicle))"

definition define_constraints :: "Flags \<Rightarrow> Constraint list" where
  "define_constraints flags =
     (let constraints = [vehicle_capacity];
          constraints =
            (if ENABLE_TIME_WINDOW_CONSTRAINTS flags
             then constraints @ [service_finished_after_max_end_time] else constraints);
          constraints =
            (if ENABLE_DRIVING_TIME_LIMIT flags
             then constraints @ [limit_driving_time] else constraints);
          constraints = constraints @ [minimize_travel_time];
          constraints =
            (if ENABLE_LOAD_BALANCING flags
             then constraints @ [balance_load] else constraints);
          constraints =
            (if ENABLE_MINIMIZE_MAX_LOAD flags
             then constraints @ [minimize_max_load] else constraints);
          constraints =
            (if ENABLE_ENCOURAGE_FULL_UTILIZATION flags
             then constraints @ [encourage_full_utilization] else constraints);
          constraints =
            (if ENABLE_MINIMIZE_VEHICLE_COUNT flags
             then constraints @ [minimize_vehicle_count] else constraints)
      in constraints)"


section \<open>Python values used by the demo data\<close>

text \<open>
  An exception is a value: a \<^verbatim>\<open>ValueError\<close> carries its message as the parts of the
  f-string that builds it (the literal text and the formatted values, in order), an
  \<^verbatim>\<open>IndexError\<close> carries nothing.
\<close>

datatype msg_part = Text string | IntValue int | FloatValue real

datatype error = ValueError "msg_part list" | IndexError

definition bind_result :: "error + 'a \<Rightarrow> ('a \<Rightarrow> error + 'b) \<Rightarrow> error + 'b" where
  "bind_result m f = (case m of Inl e \<Rightarrow> Inl e | Inr x \<Rightarrow> f x)"

definition py_getitem :: "'a list \<Rightarrow> int \<Rightarrow> error + 'a" where
  \<comment> \<open>\<^verbatim>\<open>sequence[i]\<close>: an index below zero counts back from the end\<close>
  "py_getitem sequence i =
     (if 0 \<le> i \<and> i < int (length sequence) then Inr (sequence ! nat i)
      else if - int (length sequence) \<le> i \<and> i < 0
        then Inr (sequence ! nat (int (length sequence) + i))
      else Inl IndexError)"

definition py_range :: "int \<Rightarrow> int list" where
  \<comment> \<open>\<^verbatim>\<open>range(n)\<close>: empty when \<open>n \<le> 0\<close>\<close>
  "py_range n = map int [0..<nat n]"

definition DIGITS :: string where
  "DIGITS = ''0123456789''"

fun str_nat :: "nat \<Rightarrow> string" where
  "str_nat n =
     (if n < 10 then [DIGITS ! n]
      else str_nat (n div 10) @ [DIGITS ! (n mod 10)])"

definition str_int :: "int \<Rightarrow> string" where
  \<comment> \<open>\<^verbatim>\<open>str(i)\<close> of an integer\<close>
  "str_int i = (if i < 0 then CHR ''-'' # str_nat (nat (- i)) else str_nat (nat i))"

definition key_less :: "real \<times> real \<Rightarrow> real \<times> real \<Rightarrow> bool" where
  \<comment> \<open>the order of Python tuples of two numbers\<close>
  "key_less a b = (fst a < fst b \<or> (fst a = fst b \<and> snd a < snd b))"

fun py_min_from :: "('a \<Rightarrow> real \<times> real) \<Rightarrow> 'a \<Rightarrow> 'a list \<Rightarrow> 'a" where
  "py_min_from key best [] = best"
| "py_min_from key best (x # xs) =
     py_min_from key (if key_less (key x) (key best) then x else best) xs"

fun py_max_from :: "('a \<Rightarrow> real \<times> real) \<Rightarrow> 'a \<Rightarrow> 'a list \<Rightarrow> 'a" where
  "py_max_from key best [] = best"
| "py_max_from key best (x # xs) =
     py_max_from key (if key_less (key best) (key x) then x else best) xs"

definition py_min :: "('a \<Rightarrow> real \<times> real) \<Rightarrow> 'a list \<Rightarrow> error + 'a" where
  \<comment> \<open>\<^verbatim>\<open>min(xs, key=key)\<close>: the first of the smallest elements\<close>
  "py_min key xs =
     (case xs of
        [] \<Rightarrow> Inl (ValueError [Text ''min() arg is an empty sequence''])
      | x # rest \<Rightarrow> Inr (py_min_from key x rest))"

definition py_max :: "('a \<Rightarrow> real \<times> real) \<Rightarrow> 'a list \<Rightarrow> error + 'a" where
  \<comment> \<open>\<^verbatim>\<open>max(xs, key=key)\<close>: the first of the largest elements\<close>
  "py_max key xs =
     (case xs of
        [] \<Rightarrow> Inl (ValueError [Text ''max() arg is an empty sequence''])
      | x # rest \<Rightarrow> Inr (py_max_from key x rest))"


section \<open>The random number generator\<close>

text \<open>
  \<^verbatim>\<open>random.Random\<close> is the standard library's: it is a parameter of the model. A generator
  is a record of the methods the program calls, each taking the generator's state and
  returning the value drawn and the next state. \<open>rnd_choice n\<close> is the position that
  \<^verbatim>\<open>choice\<close> picks in a sequence of length \<open>n\<close>. \<open>Random_contract\<close> is what the
  library's documentation promises of the values drawn.
\<close>

record 'g Random =
  rnd_seed :: "int \<Rightarrow> 'g"
  rnd_random :: "'g \<Rightarrow> real \<times> 'g"
  rnd_uniform :: "real \<Rightarrow> real \<Rightarrow> 'g \<Rightarrow> real \<times> 'g"
  rnd_randrange :: "int \<Rightarrow> int \<Rightarrow> 'g \<Rightarrow> int \<times> 'g"
  rnd_randint :: "int \<Rightarrow> int \<Rightarrow> 'g \<Rightarrow> int \<times> 'g"
  rnd_choice :: "nat \<Rightarrow> 'g \<Rightarrow> nat \<times> 'g"

definition Random_contract :: "'g Random \<Rightarrow> bool" where
  "Random_contract R \<longleftrightarrow>
     (\<forall>g. 0 \<le> fst (rnd_random R g) \<and> fst (rnd_random R g) < 1) \<and>
     (\<forall>a b g. min a b \<le> fst (rnd_uniform R a b g) \<and> fst (rnd_uniform R a b g) \<le> max a b) \<and>
     (\<forall>a b g. a < b \<longrightarrow> a \<le> fst (rnd_randrange R a b g) \<and> fst (rnd_randrange R a b g) < b) \<and>
     (\<forall>a b g. a \<le> b \<longrightarrow> a \<le> fst (rnd_randint R a b g) \<and> fst (rnd_randint R a b g) \<le> b) \<and>
     (\<forall>n g. 0 < n \<longrightarrow> fst (rnd_choice R n g) < n)"

definition choice :: "'g Random \<Rightarrow> 'a list \<Rightarrow> 'g \<Rightarrow> error + 'a \<times> 'g" where
  \<comment> \<open>\<^verbatim>\<open>random.choice(seq)\<close>; an empty sequence raises \<^verbatim>\<open>IndexError\<close>\<close>
  "choice R xs g =
     (let (i, g') = rnd_choice R (length xs) g
      in if i < length xs then Inr (xs ! i, g') else Inl IndexError)"

text \<open>
  A concrete generator, to run the model on: a linear congruential generator on 31 bits,
  its state an integer.
\<close>

definition lcg_next :: "int \<Rightarrow> int" where
  "lcg_next g = (1103515245 * g + 12345) mod 2147483648"

definition lcg_unit :: "int \<Rightarrow> real" where
  "lcg_unit g = real_of_int (lcg_next g) / 2147483648"

definition lcg :: "int Random" where
  "lcg =
     \<lparr>rnd_seed = (\<lambda>s. s),
      rnd_random = (\<lambda>g. (lcg_unit g, lcg_next g)),
      rnd_uniform = (\<lambda>a b g. (a + (b - a) * lcg_unit g, lcg_next g)),
      rnd_randrange = (\<lambda>a b g. (a + lcg_next g mod (b - a), lcg_next g)),
      rnd_randint = (\<lambda>a b g. (a + lcg_next g mod (b + 1 - a), lcg_next g)),
      rnd_choice = (\<lambda>n g. (nat (lcg_next g mod int n), lcg_next g))\<rparr>"


section \<open>Demo data\<close>

definition FIRST_NAMES :: "string list" where
  "FIRST_NAMES =
     [''Amy'', ''Beth'', ''Chad'', ''Dan'', ''Elsa'', ''Flo'', ''Gus'', ''Hugo'', ''Ivy'', ''Jay'']"

definition LAST_NAMES :: "string list" where
  "LAST_NAMES =
     [''Cole'', ''Fox'', ''Green'', ''Jones'', ''King'', ''Li'', ''Poe'', ''Rye'', ''Smith'',
      ''Watt'']"

definition SERVICE_DURATION_MINUTES :: "int list" where
  "SERVICE_DURATION_MINUTES = [10, 20, 30, 40]"

definition MORNING_WINDOW_START :: time where
  "MORNING_WINDOW_START = time_of 8 0"

definition MORNING_WINDOW_END :: time where
  "MORNING_WINDOW_END = time_of 12 0"

definition AFTERNOON_WINDOW_START :: time where
  "AFTERNOON_WINDOW_START = time_of 13 0"

definition AFTERNOON_WINDOW_END :: time where
  "AFTERNOON_WINDOW_END = time_of 18 0"

definition WAREHOUSE_LOCATION :: Location where
  "WAREHOUSE_LOCATION = \<lparr>latitude = 47.57900943093803, longitude = 5.576702063852337\<rparr>"

text \<open>
  The dataclass \<^verbatim>\<open>_DemoDataProperties\<close>. \<open>post_init\<close> is its \<^verbatim>\<open>__post_init__\<close>, and
  \<open>DemoDataProperties_new\<close> is the construction of an instance: the fields are stored and
  \<open>post_init\<close> runs, so that an instance exists only when no check raised.
\<close>

record DemoDataProperties =
  seed :: int
  visit_count :: int
  vehicle_count :: int
  vehicle_start_time :: time
  min_demand :: int
  max_demand :: int
  min_vehicle_capacity :: int
  max_vehicle_capacity :: int
  south_west_corner :: Location
  north_east_corner :: Location

definition post_init :: "DemoDataProperties \<Rightarrow> error + unit" where
  "post_init self =
     (if min_demand self < 1 then
        Inl (ValueError [Text ''minDemand ('', IntValue (min_demand self),
                         Text '') must be greater than zero.''])
      else if max_demand self < 1 then
        Inl (ValueError [Text ''maxDemand ('', IntValue (max_demand self),
                         Text '') must be greater than zero.''])
      else if min_demand self \<ge> max_demand self then
        Inl (ValueError [Text ''maxDemand ('', IntValue (max_demand self),
                         Text '') must be greater than minDemand ('',
                         IntValue (min_demand self), Text '').''])
      else if min_vehicle_capacity self < 1 then
        Inl (ValueError [Text ''Number of minVehicleCapacity ('',
                         IntValue (min_vehicle_capacity self),
                         Text '') must be greater than zero.''])
      else if max_vehicle_capacity self < 1 then
        Inl (ValueError [Text ''Number of maxVehicleCapacity ('',
                         IntValue (max_vehicle_capacity self),
                         Text '') must be greater than zero.''])
      else if min_vehicle_capacity self \<ge> max_vehicle_capacity self then
        Inl (ValueError [Text ''maxVehicleCapacity ('',
                         IntValue (max_vehicle_capacity self),
                         Text '') must be greater than minVehicleCapacity ('',
                         IntValue (min_vehicle_capacity self), Text '').''])
      else if visit_count self < 1 then
        Inl (ValueError [Text ''Number of visitCount ('', IntValue (visit_count self),
                         Text '') must be greater than zero.''])
      else if vehicle_count self < 1 then
        Inl (ValueError [Text ''Number of vehicleCount ('', IntValue (vehicle_count self),
                         Text '') must be greater than zero.''])
      else if latitude (DemoDataProperties.north_east_corner self)
                \<le> latitude (DemoDataProperties.south_west_corner self) then
        Inl (ValueError [Text ''northEastCorner.getLatitude ('',
                         FloatValue (latitude (DemoDataProperties.north_east_corner self)),
                         Text '') must be greater than southWestCorner.getLatitude('',
                         FloatValue (latitude (DemoDataProperties.south_west_corner self)),
                         Text '').''])
      else if longitude (DemoDataProperties.north_east_corner self)
                \<le> longitude (DemoDataProperties.south_west_corner self) then
        Inl (ValueError [Text ''northEastCorner.getLongitude ('',
                         FloatValue (longitude (DemoDataProperties.north_east_corner self)),
                         Text '') must be greater than southWestCorner.getLongitude('',
                         FloatValue (longitude (DemoDataProperties.south_west_corner self)),
                         Text '').''])
      else Inr ())"


text \<open>The enumeration \<^verbatim>\<open>DemoData\<close>: its members and the value of each.\<close>

datatype DemoData = NEW_LOCATION

definition DemoData_members :: "DemoData list" where
  \<comment> \<open>\<^verbatim>\<open>list(DemoData)\<close>\<close>
  "DemoData_members = [NEW_LOCATION]"

fun DemoData_value :: "DemoData \<Rightarrow> DemoDataProperties" where
  "DemoData_value NEW_LOCATION =
     \<lparr>seed = 0,
      visit_count = 200,
      vehicle_count = 50,
      vehicle_start_time = time_of 7 30,
      min_demand = 2,
      max_demand = 4,
      min_vehicle_capacity = 10,
      max_vehicle_capacity = 15,
      south_west_corner =
        \<lparr>latitude = 47.57900943093803 - 0.675, longitude = 5.576702063852337 - 0.675\<rparr>,
      north_east_corner =
        \<lparr>latitude = 47.57900943093803 + 0.675, longitude = 5.576702063852337 + 0.675\<rparr>\<rparr>"

text \<open>
  The generators \<^verbatim>\<open>doubles\<close>, \<^verbatim>\<open>ints\<close>, \<^verbatim>\<open>values\<close> and \<^verbatim>\<open>generate_names\<close> loop for
  ever and yield one value per round. A call of \<^verbatim>\<open>next\<close> runs one round: it draws from the
  shared random generator and returns the value with the generator's next state.
\<close>

definition doubles_next :: "'g Random \<Rightarrow> real \<Rightarrow> real \<Rightarrow> 'g \<Rightarrow> real \<times> 'g" where
  "doubles_next R start end' g = rnd_uniform R start end' g"

definition ints_next :: "'g Random \<Rightarrow> int \<Rightarrow> int \<Rightarrow> 'g \<Rightarrow> int \<times> 'g" where
  "ints_next R start end' g = rnd_randrange R start end' g"

definition values_next :: "'g Random \<Rightarrow> 'a list \<Rightarrow> 'g \<Rightarrow> error + 'a \<times> 'g" where
  "values_next R sequence g =
     (let start = 0;
          end' = int (length sequence) - 1;
          (i, g') = rnd_randint R start end' g
      in bind_result (py_getitem sequence i) (\<lambda>x. Inr (x, g')))"

definition generate_names_next :: "'g Random \<Rightarrow> 'g \<Rightarrow> error + string \<times> 'g" where
  "generate_names_next R g =
     bind_result (choice R FIRST_NAMES g) (\<lambda>(first_name, g1).
     bind_result (choice R LAST_NAMES g1) (\<lambda>(last_name, g2).
     Inr (first_name @ '' '' @ last_name, g2)))"

definition random_location ::
  "'g Random \<Rightarrow> (Location \<times> Location) list \<Rightarrow> 'g \<Rightarrow> error + Location \<times> 'g" where
  "random_location R all_lat_lon_ranges g =
     bind_result (choice R all_lat_lon_ranges g) (\<lambda>((sw, ne), g1).
       let (lat, g2) = rnd_uniform R (latitude sw) (latitude ne) g1;
           (lon, g3) = rnd_uniform R (longitude sw) (longitude ne) g2
       in Inr (\<lparr>latitude = lat, longitude = lon\<rparr>, g3))"

text \<open>
  The two list comprehensions of \<^verbatim>\<open>generate_demo_data\<close>, as recursion over the indices of
  \<^verbatim>\<open>range(...)\<close>. The arguments of each constructor are evaluated from left to right, which
  fixes the order of the draws. \<open>today\<close> is what \<^verbatim>\<open>date.today()\<close> returns: one date for
  the whole call. The constructors are given no visits, driving time or finish time: a new
  vehicle has no visits and has driven nothing, and a new visit is unassigned.
\<close>

definition new_vehicle :: "'g Random \<Rightarrow> DemoDataProperties \<Rightarrow> date \<Rightarrow> int \<Rightarrow> 'g \<Rightarrow> Vehicle \<times> 'g" where
  "new_vehicle R demo_data today i g =
     (let (c, g1) = ints_next R (min_vehicle_capacity demo_data)
                      (max_vehicle_capacity demo_data + 1) g
      in (\<lparr>vehicle_id = str_int i,
           capacity = c,
           home_location = WAREHOUSE_LOCATION,
           departure_time =
             datetime_combine (date_plus today (timedelta_days 1))
               (vehicle_start_time demo_data),
           visits = [],
           total_driving_time_seconds = 0\<rparr>, g1))"

fun new_vehicles ::
  "'g Random \<Rightarrow> DemoDataProperties \<Rightarrow> date \<Rightarrow> int list \<Rightarrow> 'g \<Rightarrow> Vehicle list \<times> 'g" where
  "new_vehicles R demo_data today [] g = ([], g)"
| "new_vehicles R demo_data today (i # rest) g =
     (let (v, g1) = new_vehicle R demo_data today i g;
          (vs, g2) = new_vehicles R demo_data today rest g1
      in (v # vs, g2))"

definition new_visit ::
  "'g Random \<Rightarrow> DemoDataProperties \<Rightarrow> (Location \<times> Location) list \<Rightarrow> date \<Rightarrow> int \<Rightarrow> 'g
     \<Rightarrow> error + Visit \<times> 'g" where
  "new_visit R demo_data all_lat_lon_ranges today i g =
     bind_result (generate_names_next R g) (\<lambda>(n, g1).
     bind_result (random_location R all_lat_lon_ranges g1) (\<lambda>(loc, g2).
       let (d, g3) = ints_next R (min_demand demo_data) (max_demand demo_data + 1) g2;
           (r, g4) = rnd_random R g3;
           morning_window = (r > 0.5)
       in bind_result (values_next R SERVICE_DURATION_MINUTES g4) (\<lambda>(m, g5).
            Inr (\<lparr>visit_id = str_int i,
                  visit_name = n,
                  location = loc,
                  demand = d,
                  min_start_time =
                    datetime_combine (date_plus today (timedelta_days 1))
                      (if morning_window then MORNING_WINDOW_START
                       else AFTERNOON_WINDOW_START),
                  max_end_time =
                    datetime_combine (date_plus today (timedelta_days 1))
                      (if morning_window then MORNING_WINDOW_END
                       else AFTERNOON_WINDOW_END),
                  service_duration = timedelta_minutes m,
                  service_end_time = None\<rparr>, g5))))"

fun new_visits ::
  "'g Random \<Rightarrow> DemoDataProperties \<Rightarrow> (Location \<times> Location) list \<Rightarrow> date \<Rightarrow> int list \<Rightarrow> 'g
     \<Rightarrow> error + Visit list \<times> 'g" where
  "new_visits R demo_data all_lat_lon_ranges today [] g = Inr ([], g)"
| "new_visits R demo_data all_lat_lon_ranges today (i # rest) g =
     bind_result (new_visit R demo_data all_lat_lon_ranges today i g) (\<lambda>(v, g1).
     bind_result (new_visits R demo_data all_lat_lon_ranges today rest g1) (\<lambda>(vs, g2).
     Inr (v # vs, g2)))"

definition location_key :: "Location \<Rightarrow> real \<times> real" where
  \<comment> \<open>\<^verbatim>\<open>lambda loc: (loc.latitude, loc.longitude)\<close>\<close>
  "location_key loc = (latitude loc, longitude loc)"

text \<open>
  \<open>global_state\<close> is the state of the module's own generator, which the function
  \<^verbatim>\<open>choice\<close> of the module \<^verbatim>\<open>random\<close> draws from when no dataset is named; the generator
  of the data is seeded from the dataset.
\<close>

definition generate_demo_data ::
  "'g Random \<Rightarrow> 'g \<Rightarrow> date \<Rightarrow> DemoData option \<Rightarrow> error + VehicleRoutePlan" where
  "generate_demo_data R global_state today demo_data_enum =
     (let name = ''demo'' in
      bind_result
        (case demo_data_enum of
           None \<Rightarrow>
             bind_result (choice R DemoData_members global_state)
               (\<lambda>(member, _). Inr (DemoData_value member))
         | Some member \<Rightarrow> Inr (DemoData_value member))
        (\<lambda>demo_data.
           let random = rnd_seed R (seed demo_data);
               all_lat_lon_ranges =
                 map (\<lambda>data. (DemoDataProperties.south_west_corner (DemoData_value data),
                               DemoDataProperties.north_east_corner (DemoData_value data)))
                   DemoData_members;
               (vehicles, random) =
                 new_vehicles R demo_data today (py_range (vehicle_count demo_data)) random
           in bind_result
                (new_visits R demo_data all_lat_lon_ranges today
                   (py_range (visit_count demo_data)) random)
                (\<lambda>(visits, random).
                   bind_result
                     (py_min location_key
                        (map (\<lambda>data. DemoDataProperties.south_west_corner (DemoData_value data))
                           DemoData_members))
                     (\<lambda>sw.
                        bind_result
                          (py_max location_key
                             (map (\<lambda>data.
                                     DemoDataProperties.north_east_corner (DemoData_value data))
                                DemoData_members))
                          (\<lambda>ne.
                             Inr \<lparr>plan_name = name,
                                  VehicleRoutePlan.south_west_corner = sw,
                                  VehicleRoutePlan.north_east_corner = ne,
                                  vehicles = vehicles,
                                  VehicleRoutePlan.visits = visits\<rparr>)))))"

definition tomorrow_at :: "date \<Rightarrow> time \<Rightarrow> datetime" where
  \<comment> \<open>\<open>today\<close> is what \<^verbatim>\<open>date.today()\<close> returns\<close>
  "tomorrow_at today local_time = datetime_combine today local_time"


text \<open>
  What a claim about the checks of \<open>post_init\<close> speaks of, in the claim's words: a
  definition is rejected when a demand or capacity bound is not positive, when a minimum
  is not below its maximum, when a count is not positive, or when the north-east corner is
  not strictly north and strictly east of the south-west corner. \<open>offending_fields\<close>
  lists, for every rule that a definition breaks, the text that names the field and the
  value of the field.
\<close>

definition rejected :: "DemoDataProperties \<Rightarrow> bool" where
  "rejected p \<longleftrightarrow>
     min_demand p \<ge> max_demand p \<or> min_demand p \<le> 0 \<or> max_demand p \<le> 0 \<or>
     min_vehicle_capacity p \<le> 0 \<or> max_vehicle_capacity p \<le> 0 \<or>
     min_vehicle_capacity p \<ge> max_vehicle_capacity p \<or>
     visit_count p \<le> 0 \<or> vehicle_count p \<le> 0 \<or>
     \<not> (latitude (DemoDataProperties.north_east_corner p)
            > latitude (DemoDataProperties.south_west_corner p) \<and>
          longitude (DemoDataProperties.north_east_corner p)
            > longitude (DemoDataProperties.south_west_corner p))"




text \<open>
  What the claims about the generated plan speak of. A location lies in a rectangle when
  it is between the corners, the borders included. A \<^verbatim>\<open>time\<close> of Python has an hour
  below 24, a minute and a second below 60 and less than a million microseconds. Shifting
  a plan by a timedelta moves the departure time of every vehicle and the window of every
  visit and leaves every other field as it is.
\<close>

definition in_rectangle :: "Location \<Rightarrow> Location \<times> Location \<Rightarrow> bool" where
  "in_rectangle loc corners \<longleftrightarrow>
     latitude (fst corners) \<le> latitude loc \<and> latitude loc \<le> latitude (snd corners) \<and>
     longitude (fst corners) \<le> longitude loc \<and> longitude loc \<le> longitude (snd corners)"

definition valid_time :: "time \<Rightarrow> bool" where
  "valid_time t \<longleftrightarrow> hour t < 24 \<and> minute t < 60 \<and> second t < 60 \<and> microsecond t < 1000000"

definition time_windows :: "VehicleRoutePlan \<Rightarrow> (datetime \<times> datetime) list" where
  \<comment> \<open>the time windows of the visits of a plan, in order\<close>
  "time_windows plan =
     map (\<lambda>w. (min_start_time w, max_end_time w)) (VehicleRoutePlan.visits plan)"

definition shift_vehicle :: "timedelta \<Rightarrow> Vehicle \<Rightarrow> Vehicle" where
  "shift_vehicle delta v = v\<lparr>departure_time := departure_time v + delta\<rparr>"

definition shift_visit :: "timedelta \<Rightarrow> Visit \<Rightarrow> Visit" where
  "shift_visit delta w =
     w\<lparr>min_start_time := min_start_time w + delta, max_end_time := max_end_time w + delta\<rparr>"

definition shift_plan :: "timedelta \<Rightarrow> VehicleRoutePlan \<Rightarrow> VehicleRoutePlan" where
  "shift_plan delta plan =
     plan\<lparr>vehicles := map (shift_vehicle delta) (vehicles plan),
          VehicleRoutePlan.visits := map (shift_visit delta) (VehicleRoutePlan.visits plan)\<rparr>"


text \<open>
  The configured rectangles are the corners of the members of \<^verbatim>\<open>DemoData\<close>. A generated
  vehicle has a capacity within the bounds of the dataset, the warehouse as its home, and
  leaves on the day after \<open>today\<close> at the start time of the dataset. A generated visit
  has a demand within the bounds of the dataset, a location in one of the given
  rectangles, a service duration of 10, 20, 30 or 40 minutes, and the morning or the
  afternoon window of the day after \<open>today\<close>.
\<close>

definition configured_rectangles :: "(Location \<times> Location) list" where
  "configured_rectangles =
     map (\<lambda>data. (DemoDataProperties.south_west_corner (DemoData_value data),
                   DemoDataProperties.north_east_corner (DemoData_value data)))
       DemoData_members"

definition generated_vehicle :: "DemoDataProperties \<Rightarrow> date \<Rightarrow> Vehicle \<Rightarrow> bool" where
  "generated_vehicle demo_data today v \<longleftrightarrow>
     min_vehicle_capacity demo_data \<le> capacity v \<and>
     capacity v \<le> max_vehicle_capacity demo_data \<and>
     home_location v = WAREHOUSE_LOCATION \<and>
     departure_time v = datetime_combine (today + 1) (vehicle_start_time demo_data) \<and>
     Vehicle.visits v = []"

definition generated_visit ::
  "DemoDataProperties \<Rightarrow> (Location \<times> Location) list \<Rightarrow> date \<Rightarrow> Visit \<Rightarrow> bool" where
  "generated_visit demo_data rectangles today w \<longleftrightarrow>
     min_demand demo_data \<le> demand w \<and>
     demand w \<le> max_demand demo_data \<and>
     list_ex (in_rectangle (location w)) rectangles \<and>
     service_duration w \<in> set (map timedelta_minutes [10, 20, 30, 40]) \<and>
     service_end_time w = None \<and>
     (min_start_time w = datetime_combine (today + 1) MORNING_WINDOW_START \<and>
      max_end_time w = datetime_combine (today + 1) MORNING_WINDOW_END
      \<or>
      min_start_time w = datetime_combine (today + 1) AFTERNOON_WINDOW_START \<and>
      max_end_time w = datetime_combine (today + 1) AFTERNOON_WINDOW_END)"


section \<open>Sample entities\<close>

text \<open>Small entities to run the constraints on.\<close>

definition sample_visit :: "int \<Rightarrow> datetime \<Rightarrow> datetime option \<Rightarrow> Visit" where
  "sample_visit d latest finish =
     \<lparr>visit_id = ''0'',
      visit_name = ''Amy Cole'',
      location = WAREHOUSE_LOCATION,
      demand = d,
      min_start_time = 0,
      max_end_time = latest,
      service_duration = timedelta_minutes 10,
      service_end_time = finish\<rparr>"

definition sample_vehicle :: "int \<Rightarrow> int list \<Rightarrow> int \<Rightarrow> Vehicle" where
  "sample_vehicle c demands driving =
     \<lparr>vehicle_id = ''0'',
      capacity = c,
      home_location = WAREHOUSE_LOCATION,
      departure_time = 0,
      visits = map (\<lambda>d. sample_visit d 0 None) demands,
      total_driving_time_seconds = driving\<rparr>"

definition sample_plan :: "Vehicle list \<Rightarrow> Visit list \<Rightarrow> VehicleRoutePlan" where
  "sample_plan vs ws =
     \<lparr>plan_name = ''demo'',
      VehicleRoutePlan.south_west_corner = WAREHOUSE_LOCATION,
      VehicleRoutePlan.north_east_corner = WAREHOUSE_LOCATION,
      vehicles = vs,
      VehicleRoutePlan.visits = ws\<rparr>"

section \<open>The score of each constraint\<close>

text \<open>
  A filtered, weighted constraint scores the sum, over the entities of the plan, of the
  match weight of those that pass the filter.
\<close>

lemma penalize_score:
  "constraint_score (as_constraint n (penalize w f (filter_stream p s))) plan =
     \<lparr>hard_score = - (hard_score w * (\<Sum>x\<leftarrow>s plan. if p x then f x else 0)),
      soft_score = - (soft_score w * (\<Sum>x\<leftarrow>s plan. if p x then f x else 0))\<rparr>"
  by (simp add: constraint_score_def as_constraint_def penalize_def filter_stream_def
      sum_list_map_filter' Let_def)

lemma penalize_flat_score:
  "constraint_score (as_constraint n (penalize_flat w (filter_stream p s))) plan =
     \<lparr>hard_score = - (hard_score w * int (length (filter p (s plan)))),
      soft_score = - (soft_score w * int (length (filter p (s plan))))\<rparr>"
  by (simp add: constraint_score_def as_constraint_def penalize_flat_def penalize_def
      filter_stream_def Let_def sum_list_triv)

text \<open>
  Claim C1. The constraint \<open>vehicleCapacity\<close> has weight one hard, and each vehicle adds
  to its penalty the amount by which its total demand exceeds its capacity, and nothing
  when the total demand is at most the capacity: the score of a plan is the negated sum of
  these amounts on the hard level and zero on the soft level. A vehicle of capacity 10
  whose visits have the demands 4, 4 and 4 scores a hard penalty of 2, and a vehicle
  within its capacity scores zero.
\<close>

theorem vehicle_capacity_penalty:
  "constraint_score vehicle_capacity plan =
     \<lparr>hard_score =
        - (\<Sum>vehicle\<leftarrow>vehicles plan.
             if calculate_total_demand vehicle > capacity vehicle
             then calculate_total_demand vehicle - capacity vehicle else 0),
      soft_score = 0\<rparr>
   \<and> constraint_weight vehicle_capacity = HardSoftScore_of 1 0
   \<and> (capacity vehicle = 10 \<and> map demand (Vehicle.visits vehicle) = [4, 4, 4] \<longrightarrow>
        constraint_score vehicle_capacity (plan\<lparr>vehicles := [vehicle]\<rparr>) =
          \<lparr>hard_score = - 2, soft_score = 0\<rparr>)
   \<and> (calculate_total_demand vehicle \<le> capacity vehicle \<longrightarrow>
        constraint_score vehicle_capacity (plan\<lparr>vehicles := [vehicle]\<rparr>) =
          \<lparr>hard_score = 0, soft_score = 0\<rparr>)"
  unfolding vehicle_capacity_def penalize_score
  by (simp add: HardSoftScore_of_def for_each_Vehicle_def as_constraint_def penalize_def
      calculate_total_demand_def)

theorem vehicle_capacity_penalty_witness:
  "capacity (sample_vehicle 10 [4, 4, 4] 0) = 10
   \<and> map demand (Vehicle.visits (sample_vehicle 10 [4, 4, 4] 0)) = [4, 4, 4]
   \<and> constraint_score vehicle_capacity (sample_plan [sample_vehicle 10 [4, 4, 4] 0] []) =
        \<lparr>hard_score = - 2, soft_score = 0\<rparr>
   \<and> calculate_total_demand (sample_vehicle 10 [4, 4] 0) \<le> capacity (sample_vehicle 10 [4, 4] 0)
   \<and> constraint_score vehicle_capacity (sample_plan [sample_vehicle 10 [4, 4] 0] []) =
        \<lparr>hard_score = 0, soft_score = 0\<rparr>"
  using vehicle_capacity_penalty [of "sample_plan [] []" "sample_vehicle 10 [4, 4, 4] 0"]
    vehicle_capacity_penalty [of "sample_plan [] []" "sample_vehicle 10 [4, 4] 0"]
  by (simp add: sample_plan_def sample_vehicle_def sample_visit_def calculate_total_demand_def)

text \<open>
  Claim C2. The constraint \<open>serviceFinishedAfterMaxEndTime\<close> has weight one hard, and
  each visit whose service finishes after its maximum end time adds its delay in minutes
  to the penalty; the other visits add nothing. A visit is late exactly when it has a
  finish time and that time is later than its maximum end time. A visit that finishes
  \<open>k\<close> whole minutes late scores a hard penalty of \<open>k\<close> (7 for seven minutes), and a
  visit that finishes at or before its maximum end time scores zero.
\<close>

theorem service_finished_after_max_end_time_penalty:
  "constraint_score service_finished_after_max_end_time plan =
     \<lparr>hard_score =
        - (\<Sum>visit\<leftarrow>VehicleRoutePlan.visits plan.
             if is_service_finished_after_max_end_time visit
             then service_finished_delay_in_minutes visit else 0),
      soft_score = 0\<rparr>
   \<and> constraint_weight service_finished_after_max_end_time = HardSoftScore_of 1 0
   \<and> (is_service_finished_after_max_end_time visit \<longleftrightarrow>
        (\<exists>finish. service_end_time visit = Some finish \<and> finish > max_end_time visit))
   \<and> (0 < k \<and> service_end_time visit = Some (max_end_time visit + timedelta_minutes k) \<longrightarrow>
        constraint_score service_finished_after_max_end_time
          (plan\<lparr>VehicleRoutePlan.visits := [visit]\<rparr>) =
          \<lparr>hard_score = - k, soft_score = 0\<rparr>)
   \<and> (service_end_time visit = Some (max_end_time visit + timedelta_minutes 7) \<longrightarrow>
        constraint_score service_finished_after_max_end_time
          (plan\<lparr>VehicleRoutePlan.visits := [visit]\<rparr>) =
          \<lparr>hard_score = - 7, soft_score = 0\<rparr>)
   \<and> (service_end_time visit = Some finish \<and> finish \<le> max_end_time visit \<longrightarrow>
        constraint_score service_finished_after_max_end_time
          (plan\<lparr>VehicleRoutePlan.visits := [visit]\<rparr>) =
          \<lparr>hard_score = 0, soft_score = 0\<rparr>)"
  unfolding service_finished_after_max_end_time_def penalize_score
  by (auto simp add: HardSoftScore_of_def for_each_Visit_def as_constraint_def penalize_def
      is_service_finished_after_max_end_time_def service_finished_delay_in_minutes_def
      timedelta_minutes_def MICROSECONDS_PER_MINUTE_def split: option.splits)


theorem service_finished_after_max_end_time_penalty_witness:
  "(0::int) < 7
   \<and> service_end_time (sample_visit 4 1000 (Some (1000 + timedelta_minutes 7))) =
        Some (max_end_time (sample_visit 4 1000 (Some (1000 + timedelta_minutes 7)))
              + timedelta_minutes 7)
   \<and> constraint_score service_finished_after_max_end_time
        (sample_plan [] [sample_visit 4 1000 (Some (1000 + timedelta_minutes 7))]) =
        \<lparr>hard_score = - 7, soft_score = 0\<rparr>
   \<and> constraint_score service_finished_after_max_end_time
        (sample_plan [] [sample_visit 4 1000 (Some 1000)]) =
        \<lparr>hard_score = 0, soft_score = 0\<rparr>"
  using service_finished_after_max_end_time_penalty
      [of "sample_plan [] []" "sample_visit 4 1000 (Some (1000 + timedelta_minutes 7))" 7]
    service_finished_after_max_end_time_penalty
      [of "sample_plan [] []" "sample_visit 4 1000 (Some 1000)" 7 1000]
  by (simp add: sample_plan_def sample_visit_def)

text \<open>
  Claim C3. The constraint \<open>minimizeVehicleCount\<close> has weight twenty soft, and its score
  is twenty soft for every vehicle with at least one visit, whatever the vehicle carries:
  a vehicle without visits adds nothing, and a plan of five vehicles of which three have a
  visit scores three times twenty.
\<close>

theorem minimize_vehicle_count_penalty:
  "constraint_score minimize_vehicle_count plan =
     \<lparr>hard_score = 0,
      soft_score =
        - (20 * int (length (filter (\<lambda>vehicle. length (Vehicle.visits vehicle) > 0)
                               (vehicles plan))))\<rparr>
   \<and> constraint_weight minimize_vehicle_count = HardSoftScore_of 0 20
   \<and> (Vehicle.visits vehicle = [] \<longrightarrow>
        constraint_score minimize_vehicle_count (plan\<lparr>vehicles := vehicle # rest\<rparr>) =
        constraint_score minimize_vehicle_count (plan\<lparr>vehicles := rest\<rparr>))
   \<and> (length (vehicles plan) = 5
        \<and> length (filter (\<lambda>vehicle. length (Vehicle.visits vehicle) > 0) (vehicles plan)) = 3 \<longrightarrow>
        constraint_score minimize_vehicle_count plan =
          \<lparr>hard_score = 0, soft_score = - (3 * 20)\<rparr>)"
  unfolding minimize_vehicle_count_def penalize_flat_score
  by (simp add: HardSoftScore_of_def for_each_Vehicle_def as_constraint_def penalize_flat_def
      penalize_def)

theorem minimize_vehicle_count_penalty_witness:
  "Vehicle.visits (sample_vehicle 10 [] 0) = []
   \<and> length (vehicles (sample_plan
        [sample_vehicle 10 [4, 4, 4] 0, sample_vehicle 10 [] 0, sample_vehicle 12 [2] 0,
         sample_vehicle 15 [] 0, sample_vehicle 10 [3, 3] 0] [])) = 5
   \<and> constraint_score minimize_vehicle_count (sample_plan
        [sample_vehicle 10 [4, 4, 4] 0, sample_vehicle 10 [] 0, sample_vehicle 12 [2] 0,
         sample_vehicle 15 [] 0, sample_vehicle 10 [3, 3] 0] []) =
        \<lparr>hard_score = 0, soft_score = - 60\<rparr>"
  using minimize_vehicle_count_penalty [of "sample_plan
        [sample_vehicle 10 [4, 4, 4] 0, sample_vehicle 10 [] 0, sample_vehicle 12 [2] 0,
         sample_vehicle 15 [] 0, sample_vehicle 10 [3, 3] 0] []" "sample_vehicle 10 [] 0"]
  by (simp add: sample_plan_def sample_vehicle_def)

text \<open>
  Claim C4. The constraint \<open>limitDrivingTime\<close> has weight one hard, the limit is 10800
  seconds, and each vehicle adds to the penalty the seconds by which its total driving
  time exceeds the limit, and nothing at or below the limit.
\<close>

theorem limit_driving_time_penalty:
  "constraint_score limit_driving_time plan =
     \<lparr>hard_score =
        - (\<Sum>vehicle\<leftarrow>vehicles plan.
             if total_driving_time_seconds vehicle > DRIVING_TIME_LIMIT_SECONDS
             then total_driving_time_seconds vehicle - DRIVING_TIME_LIMIT_SECONDS else 0),
      soft_score = 0\<rparr>
   \<and> constraint_weight limit_driving_time = HardSoftScore_of 1 0
   \<and> DRIVING_TIME_LIMIT_SECONDS = 10800
   \<and> (total_driving_time_seconds vehicle > 10800 \<longrightarrow>
        constraint_score limit_driving_time (plan\<lparr>vehicles := [vehicle]\<rparr>) =
          \<lparr>hard_score = - (total_driving_time_seconds vehicle - 10800), soft_score = 0\<rparr>)
   \<and> (total_driving_time_seconds vehicle \<le> 10800 \<longrightarrow>
        constraint_score limit_driving_time (plan\<lparr>vehicles := [vehicle]\<rparr>) =
          \<lparr>hard_score = 0, soft_score = 0\<rparr>)"
  unfolding limit_driving_time_def penalize_score
  by (simp add: HardSoftScore_of_def for_each_Vehicle_def as_constraint_def penalize_def
      DRIVING_TIME_LIMIT_SECONDS_def)

theorem limit_driving_time_penalty_witness:
  "total_driving_time_seconds (sample_vehicle 10 [] 10801) > 10800
   \<and> constraint_score limit_driving_time (sample_plan [sample_vehicle 10 [] 10801] []) =
        \<lparr>hard_score = - 1, soft_score = 0\<rparr>
   \<and> total_driving_time_seconds (sample_vehicle 10 [] 10800) \<le> 10800
   \<and> constraint_score limit_driving_time (sample_plan [sample_vehicle 10 [] 10800] []) =
        \<lparr>hard_score = 0, soft_score = 0\<rparr>"
  using limit_driving_time_penalty [of "sample_plan [] []" "sample_vehicle 10 [] 10801"]
    limit_driving_time_penalty [of "sample_plan [] []" "sample_vehicle 10 [] 10800"]
  unfolding DRIVING_TIME_LIMIT_SECONDS_def
  by (simp add: sample_plan_def sample_vehicle_def)

section \<open>The list of constraints\<close>

text \<open>The eight constraints have eight different names, so they are eight different constraints.\<close>

lemma constraint_names:
  "map constraint_name
     [vehicle_capacity, service_finished_after_max_end_time, limit_driving_time,
      minimize_travel_time, balance_load, minimize_max_load, encourage_full_utilization,
      minimize_vehicle_count] =
     [''vehicleCapacity'', ''serviceFinishedAfterMaxEndTime'', ''limitDrivingTime'',
      ''minimizeTravelTime'', ''balanceLoad'', ''minimizeMaxLoad'',
      ''encourageFullUtilization'', ''minimizeVehicleCount'']"
  by (simp add: vehicle_capacity_def service_finished_after_max_end_time_def
      limit_driving_time_def minimize_travel_time_def balance_load_def minimize_max_load_def
      encourage_full_utilization_def minimize_vehicle_count_def as_constraint_def
      VEHICLE_CAPACITY_def SERVICE_FINISHED_AFTER_MAX_END_TIME_def LIMIT_DRIVING_TIME_def
      MINIMIZE_TRAVEL_TIME_def BALANCE_LOAD_def MINIMIZE_MAX_LOAD_def
      ENCOURAGE_FULL_UTILIZATION_def MINIMIZE_VEHICLE_COUNT_def)

lemma constraints_distinct:
  "distinct
     [vehicle_capacity, service_finished_after_max_end_time, limit_driving_time,
      minimize_travel_time, balance_load, minimize_max_load, encourage_full_utilization,
      minimize_vehicle_count]"
proof -
  have "distinct (map constraint_name
     [vehicle_capacity, service_finished_after_max_end_time, limit_driving_time,
      minimize_travel_time, balance_load, minimize_max_load, encourage_full_utilization,
      minimize_vehicle_count])"
    unfolding constraint_names by simp
  then show ?thesis
    by (simp only: distinct_map)
qed


lemma constraints_neq:
  "vehicle_capacity \<noteq> minimize_travel_time"
  "c \<in> {service_finished_after_max_end_time, limit_driving_time, balance_load,
          minimize_max_load, encourage_full_utilization, minimize_vehicle_count}
     \<Longrightarrow> c \<noteq> vehicle_capacity \<and> c \<noteq> minimize_travel_time"
  "distinct [service_finished_after_max_end_time, limit_driving_time, balance_load,
          minimize_max_load, encourage_full_utilization, minimize_vehicle_count]"
  "distinct [minimize_vehicle_count, encourage_full_utilization, minimize_max_load,
          balance_load, limit_driving_time, service_finished_after_max_end_time]"
  using constraints_distinct by auto

lemma set_if_append:
  "set (if c then xs @ [a] else xs) = set xs \<union> (if c then {a} else {})"
  by simp

lemma in_if_singleton: "x \<in> (if c then {y} else {}) \<longleftrightarrow> c \<and> x = y"
  by simp

lemma define_constraints_members:
  "set (define_constraints flags) =
      {vehicle_capacity, minimize_travel_time}
      \<union> (if ENABLE_TIME_WINDOW_CONSTRAINTS flags
          then {service_finished_after_max_end_time} else {})
      \<union> (if ENABLE_DRIVING_TIME_LIMIT flags then {limit_driving_time} else {})
      \<union> (if ENABLE_LOAD_BALANCING flags then {balance_load} else {})
      \<union> (if ENABLE_MINIMIZE_MAX_LOAD flags then {minimize_max_load} else {})
      \<union> (if ENABLE_ENCOURAGE_FULL_UTILIZATION flags
          then {encourage_full_utilization} else {})
      \<union> (if ENABLE_MINIMIZE_VEHICLE_COUNT flags then {minimize_vehicle_count} else {})"
  unfolding define_constraints_def Let_def set_if_append set_append
  by (simp split del: if_split add: Un_ac)

text \<open>
  Claim C5. For every setting of the flags, the list that \<open>define_constraints\<close> returns
  holds each of the six optional constraints exactly when its flag is set, and it always
  holds the vehicle-capacity and the minimize-travel-time constraints.
\<close>

theorem define_constraints_flags:
  "(service_finished_after_max_end_time \<in> set (define_constraints flags)
      \<longleftrightarrow> ENABLE_TIME_WINDOW_CONSTRAINTS flags)
   \<and> (limit_driving_time \<in> set (define_constraints flags)
      \<longleftrightarrow> ENABLE_DRIVING_TIME_LIMIT flags)
   \<and> (balance_load \<in> set (define_constraints flags)
      \<longleftrightarrow> ENABLE_LOAD_BALANCING flags)
   \<and> (minimize_max_load \<in> set (define_constraints flags)
      \<longleftrightarrow> ENABLE_MINIMIZE_MAX_LOAD flags)
   \<and> (encourage_full_utilization \<in> set (define_constraints flags)
      \<longleftrightarrow> ENABLE_ENCOURAGE_FULL_UTILIZATION flags)
   \<and> (minimize_vehicle_count \<in> set (define_constraints flags)
      \<longleftrightarrow> ENABLE_MINIMIZE_VEHICLE_COUNT flags)
   \<and> vehicle_capacity \<in> set (define_constraints flags)
   \<and> minimize_travel_time \<in> set (define_constraints flags)"
proof -
  note neq = constraints_neq(1) constraints_neq(2) [simplified]
    constraints_neq(3) [simplified] constraints_neq(4) [simplified]
  have 1: "service_finished_after_max_end_time \<in> set (define_constraints flags)
      \<longleftrightarrow> ENABLE_TIME_WINDOW_CONSTRAINTS flags"
    unfolding define_constraints_members Un_iff in_if_singleton using neq by simp
  have 2: "limit_driving_time \<in> set (define_constraints flags)
      \<longleftrightarrow> ENABLE_DRIVING_TIME_LIMIT flags"
    unfolding define_constraints_members Un_iff in_if_singleton using neq by simp
  have 3: "balance_load \<in> set (define_constraints flags)
      \<longleftrightarrow> ENABLE_LOAD_BALANCING flags"
    unfolding define_constraints_members Un_iff in_if_singleton using neq by simp
  have 4: "minimize_max_load \<in> set (define_constraints flags)
      \<longleftrightarrow> ENABLE_MINIMIZE_MAX_LOAD flags"
    unfolding define_constraints_members Un_iff in_if_singleton using neq by simp
  have 5: "encourage_full_utilization \<in> set (define_constraints flags)
      \<longleftrightarrow> ENABLE_ENCOURAGE_FULL_UTILIZATION flags"
    unfolding define_constraints_members Un_iff in_if_singleton using neq by simp
  have 6: "minimize_vehicle_count \<in> set (define_constraints flags)
      \<longleftrightarrow> ENABLE_MINIMIZE_VEHICLE_COUNT flags"
    unfolding define_constraints_members Un_iff in_if_singleton using neq by simp
  have 7: "vehicle_capacity \<in> set (define_constraints flags)"
    unfolding define_constraints_members by simp
  have 8: "minimize_travel_time \<in> set (define_constraints flags)"
    unfolding define_constraints_members by simp
  from 1 2 3 4 5 6 7 8 show ?thesis by blast
qed

theorem define_constraints_flags_witness:
  "define_constraints module_flags =
     [vehicle_capacity, service_finished_after_max_end_time, minimize_travel_time,
      minimize_vehicle_count]
   \<and> service_finished_after_max_end_time \<in> set (define_constraints module_flags)
   \<and> limit_driving_time \<notin> set (define_constraints module_flags)
   \<and> balance_load \<notin> set (define_constraints module_flags)
   \<and> minimize_max_load \<notin> set (define_constraints module_flags)
   \<and> encourage_full_utilization \<notin> set (define_constraints module_flags)
   \<and> minimize_vehicle_count \<in> set (define_constraints module_flags)"
proof -
  have "define_constraints module_flags =
     [vehicle_capacity, service_finished_after_max_end_time, minimize_travel_time,
      minimize_vehicle_count]"
    by (simp add: define_constraints_def module_flags_def)
  moreover note define_constraints_flags [of module_flags]
  ultimately show ?thesis
    by (simp add: module_flags_def)
qed

section \<open>Validation of a dataset definition\<close>

text \<open>
  The rules of the claim and the checks of \<open>post_init\<close> are the same conditions: on
  integers, not positive is below one.
\<close>

lemma nonpos_iff: "(x::int) \<le> 0 \<longleftrightarrow> x < 1"
  by arith

lemma rejected_iff:
  "rejected p \<longleftrightarrow>
     min_demand p < 1 \<or> max_demand p < 1 \<or> min_demand p \<ge> max_demand p \<or>
     min_vehicle_capacity p < 1 \<or> max_vehicle_capacity p < 1 \<or>
     min_vehicle_capacity p \<ge> max_vehicle_capacity p \<or>
     visit_count p < 1 \<or> vehicle_count p < 1 \<or>
     latitude (DemoDataProperties.north_east_corner p)
        \<le> latitude (DemoDataProperties.south_west_corner p) \<or>
     longitude (DemoDataProperties.north_east_corner p)
        \<le> longitude (DemoDataProperties.south_west_corner p)"
  unfolding rejected_def nonpos_iff de_Morgan_conj not_less
  by blast

lemma post_init_accepts:
  "\<not> rejected p \<Longrightarrow> post_init p = Inr ()"
  unfolding rejected_iff by (simp add: post_init_def)



lemma DemoData_value_accepted: "\<not> rejected (DemoData_value d)"
  by (cases d) (simp add: rejected_iff)



section \<open>The generated plan\<close>

text \<open>The linear congruential generator keeps the contract of the library.\<close>

lemma lcg_unit_range: "0 \<le> lcg_unit g \<and> lcg_unit g < 1"
proof -
  have "0 \<le> lcg_next g" and "lcg_next g < 2147483648"
    by (simp_all add: lcg_next_def)
  then show ?thesis
    by (simp add: lcg_unit_def)
qed

lemma lcg_uniform_range:
  "min a b \<le> a + (b - a) * lcg_unit g \<and> a + (b - a) * lcg_unit g \<le> max a b"
proof (cases "a \<le> b")
  case True
  have "0 \<le> (b - a) * lcg_unit g"
    using True lcg_unit_range [of g] by simp
  moreover have "(b - a) * lcg_unit g \<le> b - a"
    using True lcg_unit_range [of g] by (intro mult_left_le) simp_all
  ultimately show ?thesis
    using True by linarith
next
  case False
  have "0 \<le> (a - b) * lcg_unit g"
    using False lcg_unit_range [of g] by simp
  moreover have "(a - b) * lcg_unit g \<le> a - b"
    using False lcg_unit_range [of g] by (intro mult_left_le) simp_all
  moreover have "(b - a) * lcg_unit g = - ((a - b) * lcg_unit g)"
    by (simp add: algebra_simps)
  ultimately show ?thesis
    using False by linarith
qed

lemma lcg_contract: "Random_contract lcg"
  unfolding Random_contract_def
proof (intro conjI allI impI)
  fix a b g :: int
  assume "a < b"
  then have "0 \<le> lcg_next g mod (b - a)" and "lcg_next g mod (b - a) < b - a"
    by simp_all
  then show "a \<le> fst (rnd_randrange lcg a b g)" and "fst (rnd_randrange lcg a b g) < b"
    by (simp_all add: lcg_def)
next
  fix a b g :: int
  assume "a \<le> b"
  then have "0 \<le> lcg_next g mod (b + 1 - a)" and "lcg_next g mod (b + 1 - a) < b + 1 - a"
    by simp_all
  then show "a \<le> fst (rnd_randint lcg a b g)" and "fst (rnd_randint lcg a b g) \<le> b"
    by (simp_all add: lcg_def)
next
  fix n :: nat and g :: int
  assume "0 < n"
  then have "0 \<le> lcg_next g mod int n" and "lcg_next g mod int n < int n"
    by simp_all
  then show "fst (rnd_choice lcg n g) < n"
    by (simp add: lcg_def)
qed (simp_all add: lcg_def lcg_unit_range lcg_uniform_range)

text \<open>The model runs: the first vehicle that the generator builds for \<^verbatim>\<open>NEW_LOCATION\<close>.\<close>

lemma first_vehicle_lcg:
  "fst (new_vehicle lcg (DemoData_value NEW_LOCATION) 739926 0 (rnd_seed lcg 0)) =
     \<lparr>vehicle_id = ''0'', capacity = 13, home_location = WAREHOUSE_LOCATION,
      departure_time = 63929719800000000, visits = [], total_driving_time_seconds = 0\<rparr>"
  by (simp add: new_vehicle_def ints_next_def lcg_def lcg_next_def str_int_def DIGITS_def
      datetime_combine_def date_plus_def timedelta_days_def MICROSECONDS_PER_DAY_def
      time_microseconds_def time_of_def)

text \<open>Under the contract every draw returns, and returns a value of the promised kind.\<close>

lemma contract_random:
  "Random_contract R \<Longrightarrow> 0 \<le> fst (rnd_random R g) \<and> fst (rnd_random R g) < 1"
  unfolding Random_contract_def by blast

lemma contract_uniform:
  "Random_contract R \<Longrightarrow>
     min a b \<le> fst (rnd_uniform R a b g) \<and> fst (rnd_uniform R a b g) \<le> max a b"
  unfolding Random_contract_def by blast

lemma contract_randrange:
  "Random_contract R \<Longrightarrow> a < b \<Longrightarrow>
     a \<le> fst (rnd_randrange R a b g) \<and> fst (rnd_randrange R a b g) < b"
  unfolding Random_contract_def by blast

lemma contract_randint:
  "Random_contract R \<Longrightarrow> a \<le> b \<Longrightarrow>
     a \<le> fst (rnd_randint R a b g) \<and> fst (rnd_randint R a b g) \<le> b"
  unfolding Random_contract_def by blast

lemma contract_choice:
  "Random_contract R \<Longrightarrow> 0 < n \<Longrightarrow> fst (rnd_choice R n g) < n"
  unfolding Random_contract_def by blast

lemma choice_returns:
  assumes "Random_contract R" and "xs \<noteq> []"
  shows "\<exists>x g'. choice R xs g = Inr (x, g') \<and> x \<in> set xs"
proof -
  have "fst (rnd_choice R (length xs) g) < length xs"
    using assms by (simp add: contract_choice)
  then show ?thesis
    by (simp add: choice_def split_beta)
qed

lemma values_next_returns:
  assumes "Random_contract R" and "xs \<noteq> []"
  shows "\<exists>x g'. values_next R xs g = Inr (x, g') \<and> x \<in> set xs"
proof -
  have "(0::int) \<le> int (length xs) - 1"
    using assms(2) by (cases xs) simp_all
  then have "0 \<le> fst (rnd_randint R 0 (int (length xs) - 1) g)"
    and "fst (rnd_randint R 0 (int (length xs) - 1) g) \<le> int (length xs) - 1"
    using contract_randint [OF assms(1), of 0 "int (length xs) - 1" g] by simp_all
  then show ?thesis
    by (simp add: values_next_def py_getitem_def bind_result_def split_beta Let_def)
qed

lemma generate_names_next_returns:
  assumes "Random_contract R"
  shows "\<exists>n g'. generate_names_next R g = Inr (n, g')"
proof -
  obtain a g1 where a: "choice R FIRST_NAMES g = Inr (a, g1)"
    using choice_returns [OF assms, of FIRST_NAMES g] by (auto simp add: FIRST_NAMES_def)
  obtain b g2 where b: "choice R LAST_NAMES g1 = Inr (b, g2)"
    using choice_returns [OF assms, of LAST_NAMES g1] by (auto simp add: LAST_NAMES_def)
  show ?thesis
    by (simp add: generate_names_next_def bind_result_def a b)
qed

lemma random_location_returns:
  assumes "Random_contract R" and "ranges \<noteq> []"
    and "\<forall>c \<in> set ranges. latitude (fst c) \<le> latitude (snd c)
                            \<and> longitude (fst c) \<le> longitude (snd c)"
  shows "\<exists>loc g'. random_location R ranges g = Inr (loc, g')
            \<and> (\<exists>c \<in> set ranges. in_rectangle loc c)"
proof -
  obtain c g1 where c: "choice R ranges g = Inr (c, g1)" "c \<in> set ranges"
    using choice_returns [OF assms(1,2), of g] by auto
  obtain sw ne where sn: "c = (sw, ne)"
    by (cases c)
  have le: "latitude sw \<le> latitude ne" "longitude sw \<le> longitude ne"
    using assms(3) c(2) sn by auto
  define lat where "lat = rnd_uniform R (latitude sw) (latitude ne) g1"
  define lon where "lon = rnd_uniform R (longitude sw) (longitude ne) (snd lat)"
  have "min (latitude sw) (latitude ne) \<le> fst lat" "fst lat \<le> max (latitude sw) (latitude ne)"
    "min (longitude sw) (longitude ne) \<le> fst lon" "fst lon \<le> max (longitude sw) (longitude ne)"
    using contract_uniform [OF assms(1)] by (simp_all add: lat_def lon_def)
  then have "in_rectangle \<lparr>latitude = fst lat, longitude = fst lon\<rparr> c"
    using le by (simp add: in_rectangle_def sn)
  moreover have "random_location R ranges g =
      Inr (\<lparr>latitude = fst lat, longitude = fst lon\<rparr>, snd lon)"
    by (simp add: random_location_def bind_result_def c(1) sn split_beta lat_def lon_def)
  ultimately show ?thesis
    using c(2) by blast
qed

text \<open>
  The comprehensions build one entity per index, each of the generated kind, provided
  that the bounds of the dataset are ordered and every rectangle has its corners in order.
\<close>

lemma date_plus_one: "date_plus d (timedelta_days 1) = d + 1"
  by (simp add: date_plus_def timedelta_days_def MICROSECONDS_PER_DAY_def)

lemma datetime_combine_shift:
  "datetime_combine (d + k) t = datetime_combine d t + timedelta_days k"
  by (simp add: datetime_combine_def timedelta_days_def algebra_simps)

lemma new_vehicle_generated:
  assumes "Random_contract R"
    and "min_vehicle_capacity demo_data \<le> max_vehicle_capacity demo_data"
  shows "generated_vehicle demo_data today (fst (new_vehicle R demo_data today i g))"
proof -
  have "min_vehicle_capacity demo_data < max_vehicle_capacity demo_data + 1"
    using assms(2) by simp
  from contract_randrange [OF assms(1) this, of g]
  show ?thesis
    by (simp add: generated_vehicle_def new_vehicle_def ints_next_def split_beta date_plus_one)
qed

lemma new_vehicles_generated:
  assumes "Random_contract R"
    and "min_vehicle_capacity demo_data \<le> max_vehicle_capacity demo_data"
  shows "length (fst (new_vehicles R demo_data today indices g)) = length indices
         \<and> (\<forall>v \<in> set (fst (new_vehicles R demo_data today indices g)).
               generated_vehicle demo_data today v)"
proof (induction indices arbitrary: g)
  case Nil
  show ?case by simp
next
  case (Cons i rest)
  show ?case
    using Cons.IH [of "snd (new_vehicle R demo_data today i g)"]
      new_vehicle_generated [OF assms, of today i g]
    by (simp add: split_beta)
qed

lemma new_visit_returns:
  assumes "Random_contract R" and "ranges \<noteq> []"
    and "\<forall>c \<in> set ranges. latitude (fst c) \<le> latitude (snd c)
                            \<and> longitude (fst c) \<le> longitude (snd c)"
    and "min_demand demo_data \<le> max_demand demo_data"
  shows "\<exists>w g'. new_visit R demo_data ranges today i g = Inr (w, g')
            \<and> generated_visit demo_data ranges today w"
proof -
  obtain n g1 where n: "generate_names_next R g = Inr (n, g1)"
    using generate_names_next_returns [OF assms(1), of g] by blast
  obtain loc g2 where loc: "random_location R ranges g1 = Inr (loc, g2)"
    "\<exists>c \<in> set ranges. in_rectangle loc c"
    using random_location_returns [OF assms(1,2,3), of g1] by blast
  define d where "d = ints_next R (min_demand demo_data) (max_demand demo_data + 1) g2"
  define r where "r = rnd_random R (snd d)"
  obtain m g5 where m: "values_next R SERVICE_DURATION_MINUTES (snd r) = Inr (m, g5)"
    "m \<in> set SERVICE_DURATION_MINUTES"
    using values_next_returns [OF assms(1), of SERVICE_DURATION_MINUTES "snd r"]
    by (auto simp add: SERVICE_DURATION_MINUTES_def)
  have "min_demand demo_data < max_demand demo_data + 1"
    using assms(4) by simp
  from contract_randrange [OF assms(1) this, of g2]
  have dem: "min_demand demo_data \<le> fst d" "fst d \<le> max_demand demo_data"
    by (simp_all add: d_def ints_next_def)
  have dur: "timedelta_minutes m \<in> set (map timedelta_minutes [10, 20, 30, 40])"
    using m(2) by (auto simp add: SERVICE_DURATION_MINUTES_def)
  have rect: "list_ex (in_rectangle loc) ranges"
    using loc(2) by (simp add: list_ex_iff)
  show ?thesis
    using dem dur rect
    by (simp add: new_visit_def bind_result_def n loc(1) m(1) split_beta Let_def
        generated_visit_def date_plus_one d_def [symmetric] r_def [symmetric])
qed

lemma new_visits_returns:
  assumes "Random_contract R" and "ranges \<noteq> []"
    and "\<forall>c \<in> set ranges. latitude (fst c) \<le> latitude (snd c)
                            \<and> longitude (fst c) \<le> longitude (snd c)"
    and "min_demand demo_data \<le> max_demand demo_data"
  shows "\<exists>ws g'. new_visits R demo_data ranges today indices g = Inr (ws, g')
            \<and> length ws = length indices
            \<and> (\<forall>w \<in> set ws. generated_visit demo_data ranges today w)"
proof (induction indices arbitrary: g)
  case Nil
  show ?case by simp
next
  case (Cons i rest)
  obtain w g1 where w: "new_visit R demo_data ranges today i g = Inr (w, g1)"
    "generated_visit demo_data ranges today w"
    using new_visit_returns [OF assms, of today i g] by blast
  obtain ws g2 where ws: "new_visits R demo_data ranges today rest g1 = Inr (ws, g2)"
    "length ws = length rest" "\<forall>w \<in> set ws. generated_visit demo_data ranges today w"
    using Cons.IH [of g1] by blast
  show ?case
    using w(2) ws(2,3) by (simp add: bind_result_def w(1) ws(1))
qed

lemma py_range_length: "length (py_range n) = nat n"
  by (simp add: py_range_def)

lemma configured_rectangles_ordered:
  "configured_rectangles \<noteq> []
   \<and> (\<forall>c \<in> set configured_rectangles.
         latitude (fst c) \<le> latitude (snd c) \<and> longitude (fst c) \<le> longitude (snd c))"
  by (simp add: configured_rectangles_def DemoData_members_def)

lemma generate_demo_data_unnamed:
  assumes "Random_contract R"
  shows "\<exists>member. generate_demo_data R gs today None =
                     generate_demo_data R gs today (Some member)"
proof -
  obtain member g' where "choice R DemoData_members gs = Inr (member, g')"
    using choice_returns [OF assms, of DemoData_members gs]
    by (auto simp add: DemoData_members_def)
  then have "generate_demo_data R gs today None =
               generate_demo_data R gs today (Some member)"
    by (simp add: generate_demo_data_def bind_result_def)
  then show ?thesis ..
qed

lemma generate_demo_data_named:
  assumes "Random_contract R"
  shows "\<exists>plan. generate_demo_data R gs today (Some member) = Inr plan
     \<and> length (vehicles plan) = nat (vehicle_count (DemoData_value member))
     \<and> (\<forall>v \<in> set (vehicles plan). generated_vehicle (DemoData_value member) today v)
     \<and> length (VehicleRoutePlan.visits plan) = nat (visit_count (DemoData_value member))
     \<and> (\<forall>w \<in> set (VehicleRoutePlan.visits plan).
           generated_visit (DemoData_value member) configured_rectangles today w)"
proof -
  define dd where "dd = DemoData_value member"
  have "\<not> rejected dd"
    by (simp add: dd_def DemoData_value_accepted)
  then have bounds: "min_vehicle_capacity dd \<le> max_vehicle_capacity dd"
    "min_demand dd \<le> max_demand dd"
    unfolding rejected_iff by simp_all
  define vs where
    "vs = new_vehicles R dd today (py_range (vehicle_count dd)) (rnd_seed R (seed dd))"
  have vehicles: "length (fst vs) = nat (vehicle_count dd)"
    "\<forall>v \<in> set (fst vs). generated_vehicle dd today v"
    using new_vehicles_generated [OF assms bounds(1), of today "py_range (vehicle_count dd)"
        "rnd_seed R (seed dd)"]
    by (simp_all add: vs_def py_range_length)
  obtain ws g' where visits:
    "new_visits R dd configured_rectangles today (py_range (visit_count dd)) (snd vs)
       = Inr (ws, g')"
    "length ws = nat (visit_count dd)"
    "\<forall>w \<in> set ws. generated_visit dd configured_rectangles today w"
    using new_visits_returns [OF assms _ _ bounds(2), of configured_rectangles today
        "py_range (visit_count dd)" "snd vs"] configured_rectangles_ordered
    by (auto simp add: py_range_length)
  have corners:
    "\<exists>sw. py_min location_key
        (map (\<lambda>data. DemoDataProperties.south_west_corner (DemoData_value data))
           DemoData_members) = Inr sw"
    "\<exists>ne. py_max location_key
        (map (\<lambda>data. DemoDataProperties.north_east_corner (DemoData_value data))
           DemoData_members) = Inr ne"
    by (simp_all add: py_min_def py_max_def DemoData_members_def)
  then obtain sw ne where sw: "py_min location_key
        (map (\<lambda>data. DemoDataProperties.south_west_corner (DemoData_value data))
           DemoData_members) = Inr sw"
    and ne: "py_max location_key
        (map (\<lambda>data. DemoDataProperties.north_east_corner (DemoData_value data))
           DemoData_members) = Inr ne"
    by blast
  have "generate_demo_data R gs today (Some member) =
          Inr \<lparr>plan_name = ''demo'',
               VehicleRoutePlan.south_west_corner = sw,
               VehicleRoutePlan.north_east_corner = ne,
               vehicles = fst vs,
               VehicleRoutePlan.visits = ws\<rparr>"
    unfolding generate_demo_data_def Let_def
    by (simp add: bind_result_def split_beta sw ne dd_def [symmetric] vs_def [symmetric]
        configured_rectangles_def [symmetric] visits(1))
  then show ?thesis
    using vehicles visits(2,3) by (simp add: dd_def)
qed

lemma generate_demo_data_returns:
  assumes "Random_contract R"
  shows "\<exists>member plan. (sel = None \<or> sel = Some member)
     \<and> generate_demo_data R gs today sel = Inr plan
     \<and> length (vehicles plan) = nat (vehicle_count (DemoData_value member))
     \<and> (\<forall>v \<in> set (vehicles plan). generated_vehicle (DemoData_value member) today v)
     \<and> length (VehicleRoutePlan.visits plan) = nat (visit_count (DemoData_value member))
     \<and> (\<forall>w \<in> set (VehicleRoutePlan.visits plan).
           generated_visit (DemoData_value member) configured_rectangles today w)"
proof (cases sel)
  case None
  obtain member where "generate_demo_data R gs today None =
       generate_demo_data R gs today (Some member)"
    using generate_demo_data_unnamed [OF assms] by blast
  then show ?thesis
    using generate_demo_data_named [OF assms, of gs today member] None by auto
next
  case (Some member)
  then show ?thesis
    using generate_demo_data_named [OF assms, of gs today member] by auto
qed

lemma counts_positive:
  "0 \<le> vehicle_count (DemoData_value member) \<and> 0 \<le> visit_count (DemoData_value member)"
  by (cases member) simp

text \<open>
  Claim C8. With a random generator that keeps its contract, \<open>generate_demo_data\<close>
  returns a plan for the dataset it was given (or, given none, for a member of
  \<^verbatim>\<open>DemoData\<close>), with exactly \<open>vehicle_count\<close> vehicles and \<open>visit_count\<close> visits.
  Every vehicle has a capacity from \<open>min_vehicle_capacity\<close> to \<open>max_vehicle_capacity\<close>,
  both included, and the warehouse as its home location. Every visit has a demand from
  \<open>min_demand\<close> to \<open>max_demand\<close>, both included, a service duration of 10, 20, 30 or
  40 minutes, and a location within one of the configured rectangles.
\<close>

theorem generate_demo_data_shape:
  assumes "Random_contract R"
  shows "\<exists>member plan. (sel = None \<or> sel = Some member)
     \<and> generate_demo_data R gs today sel = Inr plan
     \<and> int (length (vehicles plan)) = vehicle_count (DemoData_value member)
     \<and> int (length (VehicleRoutePlan.visits plan)) = visit_count (DemoData_value member)
     \<and> (\<forall>v \<in> set (vehicles plan).
           min_vehicle_capacity (DemoData_value member) \<le> capacity v
           \<and> capacity v \<le> max_vehicle_capacity (DemoData_value member)
           \<and> home_location v = WAREHOUSE_LOCATION)
     \<and> (\<forall>w \<in> set (VehicleRoutePlan.visits plan).
           min_demand (DemoData_value member) \<le> demand w
           \<and> demand w \<le> max_demand (DemoData_value member)
           \<and> service_duration w \<in> {timedelta_minutes 10, timedelta_minutes 20,
                                      timedelta_minutes 30, timedelta_minutes 40}
           \<and> (\<exists>c \<in> set configured_rectangles. in_rectangle (location w) c))"
proof -
  obtain member plan where *: "sel = None \<or> sel = Some member"
    "generate_demo_data R gs today sel = Inr plan"
    "length (vehicles plan) = nat (vehicle_count (DemoData_value member))"
    "\<forall>v \<in> set (vehicles plan). generated_vehicle (DemoData_value member) today v"
    "length (VehicleRoutePlan.visits plan) = nat (visit_count (DemoData_value member))"
    "\<forall>w \<in> set (VehicleRoutePlan.visits plan).
           generated_visit (DemoData_value member) configured_rectangles today w"
    using generate_demo_data_returns [OF assms, of sel gs today] by blast
  have "int (length (vehicles plan)) = vehicle_count (DemoData_value member)"
    "int (length (VehicleRoutePlan.visits plan)) = visit_count (DemoData_value member)"
    using *(3,5) counts_positive [of member] by simp_all
  moreover have "\<forall>v \<in> set (vehicles plan).
           min_vehicle_capacity (DemoData_value member) \<le> capacity v
           \<and> capacity v \<le> max_vehicle_capacity (DemoData_value member)
           \<and> home_location v = WAREHOUSE_LOCATION"
    using *(4) by (simp add: generated_vehicle_def)
  moreover have "\<forall>w \<in> set (VehicleRoutePlan.visits plan).
           min_demand (DemoData_value member) \<le> demand w
           \<and> demand w \<le> max_demand (DemoData_value member)
           \<and> service_duration w \<in> {timedelta_minutes 10, timedelta_minutes 20,
                                      timedelta_minutes 30, timedelta_minutes 40}
           \<and> (\<exists>c \<in> set configured_rectangles. in_rectangle (location w) c)"
    using *(6) by (simp add: generated_visit_def list_ex_iff)
  ultimately show ?thesis
    using *(1,2) by blast
qed

theorem generate_demo_data_shape_witness:
  "Random_contract lcg
   \<and> (\<exists>plan. generate_demo_data lcg 0 739926 (Some NEW_LOCATION) = Inr plan
        \<and> length (vehicles plan) = 50
        \<and> length (VehicleRoutePlan.visits plan) = 200
        \<and> list_all (\<lambda>v. 10 \<le> capacity v \<and> capacity v \<le> 15
                         \<and> home_location v = WAREHOUSE_LOCATION) (vehicles plan)
        \<and> list_all (\<lambda>w. 2 \<le> demand w \<and> demand w \<le> 4) (VehicleRoutePlan.visits plan))"
  using lcg_contract
    generate_demo_data_shape [OF lcg_contract, of "Some NEW_LOCATION" 0 739926]
  by (auto simp add: list_all_iff)

text \<open>A valid time of day is less than a day, so combining it with a date keeps the date.\<close>

lemma time_microseconds_bounds:
  assumes "valid_time t"
  shows "0 \<le> time_microseconds t \<and> time_microseconds t < MICROSECONDS_PER_DAY"
proof -
  have "int (hour t) \<le> 23" "int (minute t) \<le> 59" "int (second t) \<le> 59"
    "int (microsecond t) \<le> 999999"
    using assms by (simp_all add: valid_time_def)
  then show ?thesis
    unfolding time_microseconds_def MICROSECONDS_PER_DAY_def by simp
qed

lemma datetime_date_combine:
  assumes "valid_time t"
  shows "datetime_date (datetime_combine d t) = d"
proof -
  have "(time_microseconds t + d * MICROSECONDS_PER_DAY) div MICROSECONDS_PER_DAY = d"
    using time_microseconds_bounds [OF assms]
    by (simp add: MICROSECONDS_PER_DAY_def div_pos_pos_trivial)
  then show ?thesis
    by (simp add: datetime_date_def datetime_combine_def add.commute)
qed

lemma window_times_valid:
  "valid_time MORNING_WINDOW_START" "valid_time MORNING_WINDOW_END"
  "valid_time AFTERNOON_WINDOW_START" "valid_time AFTERNOON_WINDOW_END"
  by (simp_all add: valid_time_def time_of_def MORNING_WINDOW_START_def MORNING_WINDOW_END_def
      AFTERNOON_WINDOW_START_def AFTERNOON_WINDOW_END_def)

lemma start_time_valid: "valid_time (vehicle_start_time (DemoData_value member))"
  by (cases member) (simp add: valid_time_def time_of_def)

lemma generated_visit_window:
  assumes "generated_visit demo_data rectangles today w"
  shows "min_start_time w < max_end_time w
         \<and> datetime_date (min_start_time w) = today + 1
         \<and> datetime_date (max_end_time w) = today + 1"
proof -
  have "datetime_combine (today + 1) MORNING_WINDOW_START
          < datetime_combine (today + 1) MORNING_WINDOW_END"
    "datetime_combine (today + 1) AFTERNOON_WINDOW_START
          < datetime_combine (today + 1) AFTERNOON_WINDOW_END"
    by (simp_all add: datetime_combine_def time_microseconds_def time_of_def
        MORNING_WINDOW_START_def MORNING_WINDOW_END_def
        AFTERNOON_WINDOW_START_def AFTERNOON_WINDOW_END_def)
  then show ?thesis
    using assms window_times_valid
    by (auto simp add: generated_visit_def datetime_date_combine)
qed



text \<open>
  Claim C10. For every time of day, \<open>tomorrow_at\<close> returns that time combined with
  \<open>today\<close>: a datetime on the current day and not on the following day. The departure
  times of the generated vehicles and the windows of the generated visits are on the
  following day.
\<close>

theorem tomorrow_at_is_today:
  assumes "valid_time local_time"
  shows "tomorrow_at today local_time = datetime_combine today local_time
     \<and> datetime_date (tomorrow_at today local_time) = today
     \<and> datetime_date (tomorrow_at today local_time) \<noteq> today + 1
     \<and> (Random_contract R \<longrightarrow>
          (\<exists>plan. generate_demo_data R gs today sel = Inr plan
             \<and> (\<forall>v \<in> set (vehicles plan). datetime_date (departure_time v) = today + 1)
             \<and> (\<forall>w \<in> set (VehicleRoutePlan.visits plan).
                   datetime_date (min_start_time w) = today + 1
                   \<and> datetime_date (max_end_time w) = today + 1)))"
proof -
  have here: "datetime_date (tomorrow_at today local_time) = today"
    by (simp add: tomorrow_at_def datetime_date_combine [OF assms])
  have there: "\<exists>plan. generate_demo_data R gs today sel = Inr plan
             \<and> (\<forall>v \<in> set (vehicles plan). datetime_date (departure_time v) = today + 1)
             \<and> (\<forall>w \<in> set (VehicleRoutePlan.visits plan).
                   datetime_date (min_start_time w) = today + 1
                   \<and> datetime_date (max_end_time w) = today + 1)"
    if c: "Random_contract R"
  proof -
    obtain member plan where *: "generate_demo_data R gs today sel = Inr plan"
      "\<forall>v \<in> set (vehicles plan). generated_vehicle (DemoData_value member) today v"
      "\<forall>w \<in> set (VehicleRoutePlan.visits plan).
           generated_visit (DemoData_value member) configured_rectangles today w"
      using generate_demo_data_returns [OF c, of sel gs today] by blast
    have "\<forall>v \<in> set (vehicles plan). datetime_date (departure_time v) = today + 1"
      using *(2) by (simp add: generated_vehicle_def datetime_date_combine start_time_valid)
    moreover have "\<forall>w \<in> set (VehicleRoutePlan.visits plan).
                   datetime_date (min_start_time w) = today + 1
                   \<and> datetime_date (max_end_time w) = today + 1"
      using *(3) generated_visit_window by blast
    ultimately show ?thesis
      using *(1) by blast
  qed
  show ?thesis
    using here there by (simp add: tomorrow_at_def)
qed

theorem tomorrow_at_is_today_witness:
  "valid_time (time_of 7 30)
   \<and> datetime_date (tomorrow_at 739926 (time_of 7 30)) = 739926
   \<and> Random_contract lcg
   \<and> (\<exists>plan. generate_demo_data lcg 0 739926 (Some NEW_LOCATION) = Inr plan
        \<and> list_all (\<lambda>v. datetime_date (departure_time v) = 739927) (vehicles plan))"
proof -
  have v: "valid_time (time_of 7 30)"
    by (simp add: valid_time_def time_of_def)
  from tomorrow_at_is_today [OF v, of 739926 lcg 0 "Some NEW_LOCATION"] lcg_contract v
  show ?thesis
    by (auto simp add: list_all_iff)
qed

section \<open>The date of the call\<close>

text \<open>
  A call on a later day builds the plan of the earlier day, shifted by the days between
  them; the state of the module's generator plays no part when a dataset is named.
\<close>

lemma tomorrow_shift:
  "datetime_combine (date_plus (today + k) (timedelta_days 1)) t =
     datetime_combine (date_plus today (timedelta_days 1)) t + timedelta_days k"
  unfolding date_plus_one
  by (simp add: datetime_combine_def timedelta_days_def algebra_simps)

lemma new_vehicle_shift:
  "new_vehicle R demo_data (today + k) i g =
     (shift_vehicle (timedelta_days k) (fst (new_vehicle R demo_data today i g)),
      snd (new_vehicle R demo_data today i g))"
  by (simp add: new_vehicle_def split_beta shift_vehicle_def tomorrow_shift)

lemma new_vehicles_shift:
  "new_vehicles R demo_data (today + k) indices g =
     (map (shift_vehicle (timedelta_days k)) (fst (new_vehicles R demo_data today indices g)),
      snd (new_vehicles R demo_data today indices g))"
proof (induction indices arbitrary: g)
  case Nil
  show ?case by simp
next
  case (Cons i rest)
  show ?case
    by (simp add: new_vehicle_shift Cons.IH split_beta)
qed

lemma new_visit_shift:
  "new_visit R demo_data ranges (today + k) i g =
     map_sum id (\<lambda>p. (shift_visit (timedelta_days k) (fst p), snd p))
       (new_visit R demo_data ranges today i g)"
  by (simp add: new_visit_def bind_result_def split_beta Let_def shift_visit_def tomorrow_shift
      split: sum.split)

lemma new_visits_shift:
  "new_visits R demo_data ranges (today + k) indices g =
     map_sum id (\<lambda>p. (map (shift_visit (timedelta_days k)) (fst p), snd p))
       (new_visits R demo_data ranges today indices g)"
proof (induction indices arbitrary: g)
  case Nil
  show ?case by simp
next
  case (Cons i rest)
  show ?case
    by (simp add: new_visit_shift Cons.IH bind_result_def split_beta split: sum.split)
qed

lemma generate_demo_data_shift:
  "generate_demo_data R gs (today + k) sel =
     map_sum id (shift_plan (timedelta_days k)) (generate_demo_data R gs today sel)"
  unfolding generate_demo_data_def Let_def
  by (simp add: new_vehicles_shift new_visits_shift bind_result_def split_beta shift_plan_def
      split: sum.split option.split)

lemma generate_demo_data_global_state:
  "generate_demo_data R gs1 today (Some member) = generate_demo_data R gs2 today (Some member)"
  by (simp add: generate_demo_data_def)

lemma shift_plan_keeps:
  "map capacity (vehicles (shift_plan delta plan)) = map capacity (vehicles plan)
   \<and> map (\<lambda>w. (visit_name w, location w, demand w, service_duration w))
         (VehicleRoutePlan.visits (shift_plan delta plan)) =
       map (\<lambda>w. (visit_name w, location w, demand w, service_duration w))
         (VehicleRoutePlan.visits plan)"
  by (simp add: shift_plan_def shift_vehicle_def shift_visit_def comp_def)

lemma shift_plan_time_of_day:
  "map (\<lambda>w. (datetime_time_microseconds (min_start_time w),
              datetime_time_microseconds (max_end_time w)))
     (VehicleRoutePlan.visits (shift_plan (timedelta_days k) plan)) =
   map (\<lambda>w. (datetime_time_microseconds (min_start_time w),
              datetime_time_microseconds (max_end_time w)))
     (VehicleRoutePlan.visits plan)"
  by (simp add: shift_plan_def shift_visit_def comp_def datetime_time_microseconds_def
      timedelta_days_def)

text \<open>
  Claim C7, as amended. For a named dataset, a call of \<open>generate_demo_data\<close> on the day
  \<open>today1\<close> returns what a call on the day \<open>today2\<close> returns, shifted by the days from
  \<open>today2\<close> to \<open>today1\<close>, whatever the state of the module's generator. Two calls
  on the same day return the same result. A shift by whole days leaves the capacities of
  the vehicles and the names, locations, demands and service durations of the visits as
  they are, in the same order, and keeps the time of day of every window.
\<close>

theorem generate_demo_data_deterministic:
  "generate_demo_data R gs1 today1 (Some member) =
     map_sum id (shift_plan (timedelta_days (today1 - today2)))
       (generate_demo_data R gs2 today2 (Some member))
   \<and> (today1 = today2 \<longrightarrow>
        generate_demo_data R gs1 today1 (Some member) =
        generate_demo_data R gs2 today2 (Some member))
   \<and> map capacity (vehicles (shift_plan (timedelta_days k) plan)) = map capacity (vehicles plan)
   \<and> map (\<lambda>w. (visit_name w, location w, demand w, service_duration w))
         (VehicleRoutePlan.visits (shift_plan (timedelta_days k) plan)) =
       map (\<lambda>w. (visit_name w, location w, demand w, service_duration w))
         (VehicleRoutePlan.visits plan)
   \<and> map (\<lambda>w. (datetime_time_microseconds (min_start_time w),
                 datetime_time_microseconds (max_end_time w)))
         (VehicleRoutePlan.visits (shift_plan (timedelta_days k) plan)) =
       map (\<lambda>w. (datetime_time_microseconds (min_start_time w),
                 datetime_time_microseconds (max_end_time w)))
         (VehicleRoutePlan.visits plan)"
proof -
  have "generate_demo_data R gs1 (today2 + (today1 - today2)) (Some member) =
     map_sum id (shift_plan (timedelta_days (today1 - today2)))
       (generate_demo_data R gs1 today2 (Some member))"
    by (rule generate_demo_data_shift)
  then have moved: "generate_demo_data R gs1 today1 (Some member) =
     map_sum id (shift_plan (timedelta_days (today1 - today2)))
       (generate_demo_data R gs2 today2 (Some member))"
    by (simp add: generate_demo_data_global_state [of R gs1 today2 member gs2])
  have same: "generate_demo_data R gs1 today1 (Some member) =
        generate_demo_data R gs2 today2 (Some member)" if "today1 = today2"
    using that by (simp add: generate_demo_data_global_state [of R gs1 today2 member gs2])
  show ?thesis
    using moved same shift_plan_keeps [of "timedelta_days k" plan]
      shift_plan_time_of_day [of k plan]
    by blast
qed

theorem generate_demo_data_deterministic_witness:
  "generate_demo_data lcg 0 739926 (Some NEW_LOCATION) =
     generate_demo_data lcg 1 739926 (Some NEW_LOCATION)"
  using generate_demo_data_deterministic
    [where R = lcg and ?gs1.0 = 0 and ?today1.0 = 739926 and member = NEW_LOCATION
       and ?gs2.0 = 1 and ?today2.0 = 739926, THEN conjunct2, THEN conjunct1]
  by simp

text \<open>
  Claim C7 as stated fails: two calls with the dataset \<^verbatim>\<open>NEW_LOCATION\<close>, one on day
  739926 and one on the day after, return plans whose visits have different time windows.
\<close>

theorem generate_demo_data_date_counterexample:
  "map_sum id time_windows (generate_demo_data lcg 0 739926 (Some NEW_LOCATION)) \<noteq>
   map_sum id time_windows (generate_demo_data lcg 0 739927 (Some NEW_LOCATION))"
proof
  assume eq: "map_sum id time_windows (generate_demo_data lcg 0 739926 (Some NEW_LOCATION)) =
    map_sum id time_windows (generate_demo_data lcg 0 739927 (Some NEW_LOCATION))"
  obtain plan where p: "generate_demo_data lcg 0 739926 (Some NEW_LOCATION) = Inr plan"
    "length (VehicleRoutePlan.visits plan) = nat (visit_count (DemoData_value NEW_LOCATION))"
    "\<forall>w \<in> set (VehicleRoutePlan.visits plan).
        generated_visit (DemoData_value NEW_LOCATION) configured_rectangles 739926 w"
    using generate_demo_data_named [OF lcg_contract, of 0 739926 NEW_LOCATION] by blast
  obtain plan' where p': "generate_demo_data lcg 0 739927 (Some NEW_LOCATION) = Inr plan'"
    "\<forall>w \<in> set (VehicleRoutePlan.visits plan').
        generated_visit (DemoData_value NEW_LOCATION) configured_rectangles 739927 w"
    using generate_demo_data_named [OF lcg_contract, of 0 739927 NEW_LOCATION] by blast
  have windows: "time_windows plan = time_windows plan'"
    using eq by (simp add: p(1) p'(1))
  obtain w ws where w: "VehicleRoutePlan.visits plan = w # ws"
    using p(2) by (cases "VehicleRoutePlan.visits plan") auto
  then obtain w' ws' where w': "VehicleRoutePlan.visits plan' = w' # ws'"
    "min_start_time w = min_start_time w'"
    using windows by (cases "VehicleRoutePlan.visits plan'") (auto simp add: time_windows_def)
  have "datetime_date (min_start_time w) = 739926 + 1"
    using generated_visit_window p(3) w by fastforce
  moreover have "datetime_date (min_start_time w') = 739927 + 1"
    using generated_visit_window p'(2) w'(1) by fastforce
  ultimately show False
    using w'(2) by simp
qed

end
